theory Spec2Isabelle
  imports Main "HOL-Library.Sublist"
begin

section \<open>Strings, integers and paths as the script uses them\<close>

text \<open>
  A character of the model is one of the 256 values of HOL's \<open>char\<close>, read as the Unicode
  code point of the same number (U+0000 to U+00FF); a string is the list of its code
  points, as Python counts them. On these code points the classes below are the ones of
  Python 3 for \<open>str\<close>: \<open>\d\<close> and the digits of \<open>int()\<close> are the decimal digits, which are
  \<open>0\<close> to \<open>9\<close> here; \<open>\w\<close> is every alphanumeric character and the underscore, which
  beyond ASCII takes in the letters from U+00C0 to U+00FF (without the two operators
  U+00D7 and U+00F7), the letters U+00AA, U+00B5, U+00BA and the numeric characters
  U+00B2, U+00B3, U+00B9, U+00BC to U+00BE; \<open>int()\<close> skips the ASCII white space and, in a
  string that is not ASCII, U+0085 and U+00A0. A code point above U+00FF is no value of
  this type.
\<close>

definition is_digit :: "char \<Rightarrow> bool" where
  "is_digit c = (48 \<le> (of_char c :: nat) \<and> (of_char c :: nat) \<le> 57)"

definition is_alpha :: "char \<Rightarrow> bool" where
  "is_alpha c = (let n = (of_char c :: nat) in
     (65 \<le> n \<and> n \<le> 90) \<or> (97 \<le> n \<and> n \<le> 122)
     \<or> n = 170 \<or> n = 181 \<or> n = 186
     \<or> (192 \<le> n \<and> n \<le> 214) \<or> (216 \<le> n \<and> n \<le> 246) \<or> 248 \<le> n)"

definition is_numeric :: "char \<Rightarrow> bool" where
  "is_numeric c = (let n = (of_char c :: nat) in
     is_digit c \<or> n = 178 \<or> n = 179 \<or> n = 185 \<or> (188 \<le> n \<and> n \<le> 190))"

definition is_word :: "char \<Rightarrow> bool" where
  "is_word c = (is_alpha c \<or> is_numeric c \<or> c = CHR ''_'')"

definition is_space :: "char \<Rightarrow> bool" where
  "is_space c = (let n = (of_char c :: nat) in
     (9 \<le> n \<and> n \<le> 13) \<or> n = 32 \<or> n = 133 \<or> n = 160)"

definition digit_val :: "char \<Rightarrow> nat" where
  "digit_val c = of_char c - 48"

definition digit_char :: "nat \<Rightarrow> char" where
  "digit_char d = char_of (48 + d)"

text \<open>\<open>str.lower()\<close>: the upper-case letters are \<open>A\<close> to \<open>Z\<close> and U+00C0 to U+00DE without U+00D7.\<close>

definition lower_char :: "char \<Rightarrow> char" where
  "lower_char c = (let n = (of_char c :: nat) in
     if (65 \<le> n \<and> n \<le> 90) \<or> (192 \<le> n \<and> n \<le> 222 \<and> n \<noteq> 215)
     then char_of (n + 32) else c)"

definition lower :: "string \<Rightarrow> string" where
  "lower s = map lower_char s"

text \<open>\<open>s.strip(chars)\<close>: drops leading and trailing characters that are in \<open>chars\<close>.\<close>

definition lstrip :: "string \<Rightarrow> string \<Rightarrow> string" where
  "lstrip chars s = dropWhile (\<lambda>c. c \<in> set chars) s"

definition rstrip :: "string \<Rightarrow> string \<Rightarrow> string" where
  "rstrip chars s = rev (dropWhile (\<lambda>c. c \<in> set chars) (rev s))"

definition strip :: "string \<Rightarrow> string \<Rightarrow> string" where
  "strip chars s = rstrip chars (lstrip chars s)"

text \<open>\<open>s.split("_", 1)\<close>: at most one split, at the first underscore.\<close>

definition split_once :: "char \<Rightarrow> string \<Rightarrow> string list" where
  "split_once sep s =
     (if sep \<in> set s
      then [takeWhile (\<lambda>c. c \<noteq> sep) s, tl (dropWhile (\<lambda>c. c \<noteq> sep) s)]
      else [s])"

text \<open>
  \<open>int(s)\<close> on a string, base 10: white space around the number is skipped (U+0085 and
  U+00A0 count as white space here, U+001C to U+001F do not), one sign may precede the
  digits, single underscores may stand between digits, and any other character makes the
  call fail. \<open>None\<close> is the \<open>ValueError\<close>.
\<close>

fun underscores_ok :: "string \<Rightarrow> bool" where
  "underscores_ok [] = True"
| "underscores_ok [c] = (c \<noteq> CHR ''_'')"
| "underscores_ok (c # d # cs) = (\<not> (c = CHR ''_'' \<and> d = CHR ''_'') \<and> underscores_ok (d # cs))"

definition digits_value :: "string \<Rightarrow> nat" where
  "digits_value s = foldl (\<lambda>a c. if c = CHR ''_'' then a else 10 * a + digit_val c) 0 s"

definition py_int :: "string \<Rightarrow> int option" where
  "py_int s =
     (let s1 = dropWhile is_space s;
          neg = (s1 \<noteq> [] \<and> hd s1 = CHR ''-'');
          s2 = (if s1 \<noteq> [] \<and> (hd s1 = CHR ''+'' \<or> hd s1 = CHR ''-'') then tl s1 else s1);
          body = takeWhile (\<lambda>c. is_digit c \<or> c = CHR ''_'') s2;
          rest = dropWhile (\<lambda>c. is_digit c \<or> c = CHR ''_'') s2
      in if body = [] \<or> hd body = CHR ''_'' \<or> \<not> underscores_ok body
            \<or> dropWhile is_space rest \<noteq> []
         then None
         else Some (if neg then - int (digits_value body) else int (digits_value body)))"

text \<open>\<open>str(n)\<close> and the format specifications \<open>{n:04}\<close>, \<open>{n:02}\<close> of an f-string.\<close>

fun nat_digits :: "nat \<Rightarrow> string" where
  "nat_digits n = (if n < 10 then [digit_char n] else nat_digits (n div 10) @ [digit_char (n mod 10)])"

definition zero_pad :: "nat \<Rightarrow> string \<Rightarrow> string" where
  "zero_pad w s = replicate (w - length s) CHR ''0'' @ s"

definition str_int :: "int \<Rightarrow> string" where
  "str_int n = (if n < 0 then CHR ''-'' # nat_digits (nat (- n)) else nat_digits (nat n))"

definition format_zero :: "nat \<Rightarrow> int \<Rightarrow> string" where
  "format_zero w n =
     (if n < 0 then CHR ''-'' # zero_pad (w - 1) (nat_digits (nat (- n)))
      else zero_pad w (nat_digits (nat n)))"

text \<open>\<open>os.path.basename\<close>, \<open>os.path.dirname\<close> and \<open>os.path.join\<close> of two components (POSIX).\<close>

definition basename :: "string \<Rightarrow> string" where
  "basename p = rev (takeWhile (\<lambda>c. c \<noteq> CHR ''/'') (rev p))"

definition dirname :: "string \<Rightarrow> string" where
  "dirname p =
     (let head = rev (dropWhile (\<lambda>c. c \<noteq> CHR ''/'') (rev p))
      in if head \<noteq> [] \<and> head \<noteq> replicate (length head) CHR ''/''
         then rstrip ''/'' head else head)"

definition path_join :: "string \<Rightarrow> string \<Rightarrow> string" where
  "path_join a b =
     (if b \<noteq> [] \<and> hd b = CHR ''/'' then b
      else if a = [] \<or> last a = CHR ''/'' then a @ b
      else a @ ''/'' @ b)"

section \<open>\<open>re.split\<close> on the delimiters of the canonical grammar\<close>

text \<open>
  The pattern \<open>timelapseID-|SPC-|TP-|ILL-|CAM-|CH-|PL-|outOf-|\.\<close> is an alternation of
  literal strings. At each position the alternatives are tried in order; a match ends the
  current segment and the scan goes on after it.
\<close>

definition delimiters :: "string list" where
  "delimiters = [''timelapseID-'', ''SPC-'', ''TP-'', ''ILL-'', ''CAM-'', ''CH-'', ''PL-'',
     ''outOf-'', ''.'']"

definition split_by :: string where
  "split_by = ''timelapseID-|SPC-|TP-|ILL-|CAM-|CH-|PL-|outOf-|'' @ [CHR 0x5C, CHR ''.'']"

fun strip_prefix :: "string \<Rightarrow> string \<Rightarrow> string option" where
  "strip_prefix [] s = Some s"
| "strip_prefix (d # ds) [] = None"
| "strip_prefix (d # ds) (c # cs) = (if d = c then strip_prefix ds cs else None)"

fun match_alt :: "string list \<Rightarrow> string \<Rightarrow> string option" where
  "match_alt [] s = None"
| "match_alt (d # ds) s = (case strip_prefix d s of Some r \<Rightarrow> Some r | None \<Rightarrow> match_alt ds s)"

function re_split_from :: "string \<Rightarrow> string \<Rightarrow> string list" where
  "re_split_from seg [] = [seg]"
| "re_split_from seg (c # cs) =
     (case match_alt delimiters (c # cs) of
        Some rest \<Rightarrow> seg # re_split_from [] rest
      | None \<Rightarrow> re_split_from (seg @ [c]) cs)"
  by pat_completeness auto
termination
proof (relation "measure (\<lambda>(seg, s). length s)")
  have sp: "strip_prefix d s = Some r \<Longrightarrow> length s = length d + length r" for d s r
    by (induction d s rule: strip_prefix.induct) (auto split: if_splits)
  have ma: "match_alt ds s = Some r \<Longrightarrow> [] \<notin> set ds \<Longrightarrow> length r < length s" for ds s r
  proof (induction ds)
    case Nil
    then show ?case by simp
  next
    case (Cons d ds)
    then show ?case using sp [of d s r] by (cases d) (auto split: option.splits)
  qed
  show "wf (measure (\<lambda>(seg, s). length s))" by simp
  show "((seg @ [c], cs), seg, c # cs) \<in> measure (\<lambda>(seg, s). length s)"
    for seg :: string and c cs
    by simp
  show "(([], rest), seg, c # cs) \<in> measure (\<lambda>(seg, s). length s)"
    if "match_alt delimiters (c # cs) = Some rest" for seg :: string and c cs rest
    using ma [OF that] by (simp add: delimiters_def)
qed

definition re_split :: "string \<Rightarrow> string list" where
  "re_split s = re_split_from [] s"

section \<open>The file name codec: class \<open>ImageFile\<close>\<close>

datatype error = NotImagePlaneFile string

record ImageFile =
  dataset_name :: string
  timelapse_id :: string
  time_point :: int
  specimen :: int
  illumination :: int
  camera :: int
  channel :: int
  plane :: int
  total_num_planes :: int
  additional_info :: string
  extension :: string
  path_to_image_dir :: string

text \<open>
  A new instance reads the defaults of the class attributes. The class declares no
  \<open>dataset_name\<close>; both constructors assign it before they return an instance, so the
  value given here is never read.
\<close>

definition class_defaults :: ImageFile where
  "class_defaults = \<lparr>dataset_name = [], timelapse_id = [], time_point = 0, specimen = 0,
     illumination = 0, camera = 0, channel = 0, plane = 0, total_num_planes = 0,
     additional_info = [], extension = [], path_to_image_dir = []\<rparr>"

text \<open>
  The body of the loop \<open>for i, name_part in enumerate(name_parts)\<close> of \<open>__init__\<close>, with
  its chain of \<open>if i == ...\<close>. \<open>None\<close> is the \<open>ValueError\<close> of a failed \<open>int()\<close>, which
  leaves the loop.
\<close>

definition assign_part :: "nat \<Rightarrow> string \<Rightarrow> ImageFile \<Rightarrow> ImageFile option" where
  "assign_part i name_part self =
     (if i = 0 then Some (self\<lparr>dataset_name := strip ''-_'' name_part\<rparr>)
      else if i = 1 then Some (self\<lparr>timelapse_id := strip ''-_'' name_part\<rparr>)
      else if i = 2 then map_option (\<lambda>n. self\<lparr>specimen := n\<rparr>) (py_int (strip ''-_'' name_part))
      else if i = 3 then map_option (\<lambda>n. self\<lparr>time_point := n\<rparr>) (py_int (strip ''-_'' name_part))
      else if i = 4 then map_option (\<lambda>n. self\<lparr>illumination := n\<rparr>) (py_int (strip ''-_'' name_part))
      else if i = 5 then map_option (\<lambda>n. self\<lparr>camera := n\<rparr>) (py_int (strip ''-_'' name_part))
      else if i = 6 then map_option (\<lambda>n. self\<lparr>channel := n\<rparr>) (py_int (strip ''-_'' name_part))
      else if i = 7 then map_option (\<lambda>n. self\<lparr>plane := n\<rparr>) (py_int (strip ''-_'' name_part))
      else if i = 8 then
        (let name_and_info = split_once CHR ''_'' (strip ''-_'' name_part)
         in if length name_and_info = 1
            then map_option (\<lambda>n. self\<lparr>total_num_planes := n\<rparr>)
                   (py_int (strip ''-_'' (name_and_info ! 0)))
            else map_option (\<lambda>n. self\<lparr>total_num_planes := n, additional_info := name_and_info ! 1\<rparr>)
                   (py_int (strip ''-_'' (name_and_info ! 0))))
      else if i = 9 then Some (self\<lparr>extension := name_part\<rparr>)
      else Some self)"

fun assign_parts :: "nat \<Rightarrow> string list \<Rightarrow> ImageFile \<Rightarrow> ImageFile option" where
  "assign_parts i [] self = Some self"
| "assign_parts i (name_part # name_parts) self =
     (case assign_part i name_part self of
        None \<Rightarrow> None
      | Some self' \<Rightarrow> assign_parts (Suc i) name_parts self')"

text \<open>\<open>ImageFile.__init__(file_path)\<close>. The last statement calls \<open>lower()\<close> and drops its result.\<close>

definition ImageFile_init :: "string \<Rightarrow> error + ImageFile" where
  "ImageFile_init file_path =
     (let self = class_defaults\<lparr>path_to_image_dir := dirname file_path\<rparr>;
          file_name = basename file_path;
          name_parts = re_split file_name
      in if length name_parts = 10
         then (case assign_parts 0 name_parts self of
                 None \<Rightarrow> Inl (NotImagePlaneFile
                   ''This is not a valid filename for a single plane image file!'')
               | Some self' \<Rightarrow> (let dropped = lower (extension self') in Inr self'))
         else Inl (NotImagePlaneFile
           (''Image file name is improperly formatted! Check documentation inside the script. ''
            @ ''Expected 10 parts after splitting by '' @ split_by)))"

text \<open>
  \<open>re.match\<close> of \<open>_channel(\d+)_position(\d+)_time(\d+)_view(\d+)_z(\d+)\.(\w+)\<close>: the
  match starts at the first character and need not reach the end. Each \<open>\d+\<close> is
  followed by a character that is no digit and \<open>\w+\<close> ends the pattern, so the greedy
  match takes the longest run each time and never backtracks to a shorter one: the
  pattern is matched from left to right. The result is the six groups.
\<close>

definition match_run :: "(char \<Rightarrow> bool) \<Rightarrow> string \<Rightarrow> (string \<times> string) option" where
  "match_run cls s = (if takeWhile cls s = [] then None else Some (takeWhile cls s, dropWhile cls s))"

definition xOpenSPIM_match :: "string \<Rightarrow> (string \<times> string \<times> string \<times> string \<times> string \<times> string) option" where
  "xOpenSPIM_match file_name =
     Option.bind (strip_prefix ''_channel'' file_name) (\<lambda>s.
     Option.bind (match_run is_digit s) (\<lambda>(g1, s).
     Option.bind (strip_prefix ''_position'' s) (\<lambda>s.
     Option.bind (match_run is_digit s) (\<lambda>(g2, s).
     Option.bind (strip_prefix ''_time'' s) (\<lambda>s.
     Option.bind (match_run is_digit s) (\<lambda>(g3, s).
     Option.bind (strip_prefix ''_view'' s) (\<lambda>s.
     Option.bind (match_run is_digit s) (\<lambda>(g4, s).
     Option.bind (strip_prefix ''_z'' s) (\<lambda>s.
     Option.bind (match_run is_digit s) (\<lambda>(g5, s).
     Option.bind (strip_prefix ''.'' s) (\<lambda>s.
     Option.bind (match_run is_word s) (\<lambda>(g6, s).
     Some (g1, g2, g3, g4, g5, g6)))))))))))))"

text \<open>
  \<open>ImageFile.get_ImageFile_from_xOpenSPIM_filename(file_name, file_dir)\<close>. The instance is
  made by \<open>__new__\<close>, so \<open>__init__\<close> does not run. The assignments are in the order of the
  source; an \<open>int()\<close> that fails is the \<open>ValueError\<close> branch.
\<close>

definition get_ImageFile_from_xOpenSPIM_filename :: "string \<Rightarrow> string \<Rightarrow> error + ImageFile" where
  "get_ImageFile_from_xOpenSPIM_filename file_name file_dir =
     (let instance = class_defaults\<lparr>path_to_image_dir := file_dir\<rparr>
      in case xOpenSPIM_match file_name of
           None \<Rightarrow> Inl (NotImagePlaneFile ''xOpenSPIM file name is improperly formatted!'')
         | Some (g1, g2, g3, g4, g5, g6) \<Rightarrow>
             (case (py_int g1, py_int g2, py_int g3, py_int g5) of
                (Some ch, Some sp, Some tp, Some pl) \<Rightarrow>
                  Inr (instance\<lparr>channel := ch, specimen := sp, time_point := tp, camera := 0,
                    plane := pl, extension := g6, timelapse_id := ''20240808-111112'',
                    illumination := 0, total_num_planes := 1, additional_info := [],
                    dataset_name := []\<rparr>)
              | _ \<Rightarrow> Inl (NotImagePlaneFile
                    ''This is not a valid custom filename for a single plane image file!'')))"

text \<open>\<open>get_name\<close> and \<open>get_stack_name\<close>: the f-strings, field by field.\<close>

definition get_name :: "ImageFile \<Rightarrow> string" where
  "get_name self =
     (let additional_info = additional_info self;
          dataset_name = dataset_name self;
          additional_info = (if additional_info \<noteq> [] then ''_'' @ additional_info else additional_info);
          dataset_name = (if dataset_name \<noteq> [] then dataset_name @ ''_'' else dataset_name)
      in dataset_name @ ''timelapseID-'' @ timelapse_id self
         @ ''_SPC-'' @ format_zero 4 (specimen self)
         @ ''_TP-'' @ format_zero 4 (time_point self)
         @ ''_ILL-'' @ str_int (illumination self)
         @ ''_CAM-'' @ str_int (camera self)
         @ ''_CH-'' @ format_zero 2 (channel self)
         @ ''_PL-'' @ format_zero 4 (plane self)
         @ ''-outOf-'' @ format_zero 4 (total_num_planes self)
         @ additional_info @ ''.'' @ extension self)"

definition get_stack_name :: "ImageFile \<Rightarrow> string" where
  "get_stack_name self =
     (let additional_info = additional_info self;
          dataset_name = dataset_name self;
          additional_info = (if additional_info \<noteq> [] then ''_'' @ additional_info else additional_info);
          dataset_name = (if dataset_name \<noteq> [] then dataset_name @ ''_'' else dataset_name)
      in dataset_name @ ''timelapseID-'' @ timelapse_id self
         @ ''_SPC-'' @ format_zero 4 (specimen self)
         @ ''_TP-'' @ format_zero 4 (time_point self)
         @ ''_ILL-'' @ str_int (illumination self)
         @ ''_CAM-'' @ str_int (camera self)
         @ ''_CH-'' @ format_zero 2 (channel self)
         @ ''_PL-(ZS)-outOf-'' @ format_zero 4 (total_num_planes self)
         @ additional_info @ ''.'' @ extension self)"

section \<open>The file processor and the two triggers\<close>

text \<open>
  The world the script acts on: the regular files with their content, what
  \<open>os.listdir\<close> and \<open>os.path.getmtime\<close> answer, the paths that can be written, and the lines
  printed so far. A printed line is kept as a value, not as text.
\<close>

datatype copy_error = FileNotFoundError string | SameFileError string | PermissionError string

datatype failure = Decode error | Copy copy_error

datatype line = Copied string string | Error_while_copying failure

record world =
  files :: "string \<rightharpoonup> string"
  listdir :: "string \<Rightarrow> string list"
  getmtime :: "string \<Rightarrow> int"
  writable :: "string \<Rightarrow> bool"
  stdout :: "line list"

definition isfile :: "world \<Rightarrow> string \<Rightarrow> bool" where
  "isfile w p = (files w p \<noteq> None)"

definition print :: "line \<Rightarrow> world \<Rightarrow> world" where
  "print l w = w\<lparr>stdout := stdout w @ [l]\<rparr>"

text \<open>
  \<open>shutil.copy(src, dst)\<close> for a destination that is a file path: the content of the source
  replaces that of the destination. \<open>Inl\<close> is the exception raised.
\<close>

definition shutil_copy :: "string \<Rightarrow> string \<Rightarrow> world \<Rightarrow> copy_error + world" where
  "shutil_copy src dst w =
     (case files w src of
        None \<Rightarrow> Inl (FileNotFoundError src)
      | Some data \<Rightarrow>
          if src = dst then Inl (SameFileError src)
          else if \<not> writable w dst then Inl (PermissionError dst)
          else Inr (w\<lparr>files := (files w)(dst \<mapsto> data)\<rparr>))"

record FileEventHandler =
  output_folder :: string


text \<open>
  \<open>FileEventHandler.process\<close>: every exception raised in the \<open>try\<close> block is caught and
  printed, so the function returns a world in every case.
\<close>

definition process :: "FileEventHandler \<Rightarrow> string \<Rightarrow> world \<Rightarrow> world" where
  "process self file_path w =
     (case get_ImageFile_from_xOpenSPIM_filename (basename file_path) [] of
        Inl e \<Rightarrow> print (Error_while_copying (Decode e)) w
      | Inr image_file \<Rightarrow>
          (let new_name = get_name image_file;
               new_path = path_join (output_folder self) new_name
           in case shutil_copy file_path new_path w of
                Inl e \<Rightarrow> print (Error_while_copying (Copy e)) w
              | Inr w' \<Rightarrow> print (Copied file_path new_path) w'))"


text \<open>
  \<open>scan_directory\<close>: the first loop collects the new files in the order of the listing,
  \<open>list.sort\<close> is a stable sort on the key, the second loop processes a file and then adds
  it to the set.
\<close>

fun collect_new :: "string \<Rightarrow> string set \<Rightarrow> world \<Rightarrow> string list \<Rightarrow> string list \<Rightarrow> string list" where
  "collect_new input_folder processed_files w new_files [] = new_files"
| "collect_new input_folder processed_files w new_files (file_name # names) =
     (let file_path = path_join input_folder file_name
      in if isfile w file_path \<and> file_path \<notin> processed_files
         then collect_new input_folder processed_files w (new_files @ [file_path]) names
         else collect_new input_folder processed_files w new_files names)"

fun process_new :: "FileEventHandler \<Rightarrow> string list \<Rightarrow> world \<times> string set \<Rightarrow> world \<times> string set" where
  "process_new event_handler [] st = st"
| "process_new event_handler (f # fs) (w, processed_files) =
     process_new event_handler fs (process event_handler f w, insert f processed_files)"

definition scan_directory :: "string \<Rightarrow> string set \<Rightarrow> FileEventHandler \<Rightarrow> world \<Rightarrow> world \<times> string set" where
  "scan_directory input_folder processed_files event_handler w =
     (let new_files = collect_new input_folder processed_files w [] (listdir w input_folder);
          new_files = sort_key (getmtime w) new_files
      in process_new event_handler new_files (w, processed_files))"





section \<open>The ingest grammar, declaratively\<close>

text \<open>
  The file names the ingest pattern matches, written as a concatenation: the literal
  parts with a non-empty run of digits for each \<open>\d+\<close> and a non-empty run of word
  characters for \<open>\w+\<close>.
\<close>

definition digit_string :: "string \<Rightarrow> bool" where
  "digit_string g = (g \<noteq> [] \<and> list_all is_digit g)"

definition word_string :: "string \<Rightarrow> bool" where
  "word_string g = (g \<noteq> [] \<and> list_all is_word g)"

definition xOpenSPIM_name :: "string \<Rightarrow> string \<Rightarrow> string \<Rightarrow> string \<Rightarrow> string \<Rightarrow> string \<Rightarrow> string" where
  "xOpenSPIM_name g1 g2 g3 g4 g5 g6 =
     ''_channel'' @ g1 @ ''_position'' @ g2 @ ''_time'' @ g3 @ ''_view'' @ g4 @ ''_z'' @ g5 @ ''.'' @ g6"

section \<open>The order of a reconcile tick\<close>

text \<open>
  The order of a tick in the words of the specification: the listed files that are regular
  files and not in the set, sorted by modification time.
\<close>

definition tick_order :: "string \<Rightarrow> string set \<Rightarrow> world \<Rightarrow> string list" where
  "tick_order input_folder processed_files w =
     sort_key (getmtime w)
       (filter (\<lambda>p. isfile w p \<and> p \<notin> processed_files)
          (map (path_join input_folder) (listdir w input_folder)))"

section \<open>The canonical grammar, declaratively\<close>

text \<open>
  The canonical file name of the specification, field by field as text:
  \<open>[dataset_]timelapseID-id_SPC-n_TP-n_ILL-n_CAM-n_CH-n_PL-n-outOf-n[_info].ext\<close>.
  A free-form field is free of delimiters when no delimiter of the split pattern occurs
  in it. \<open>segments\<close> are the ten parts the name falls into between the delimiters.
\<close>

record canonical_name =
  f_dataset :: string
  f_id :: string
  f_specimen :: string
  f_time_point :: string
  f_illumination :: string
  f_camera :: string
  f_channel :: string
  f_plane :: string
  f_total :: string
  f_info :: string
  f_ext :: string

definition layout :: "canonical_name \<Rightarrow> string" where
  "layout n =
     (if f_dataset n = [] then [] else f_dataset n @ ''_'')
     @ ''timelapseID-'' @ f_id n
     @ ''_SPC-'' @ f_specimen n
     @ ''_TP-'' @ f_time_point n
     @ ''_ILL-'' @ f_illumination n
     @ ''_CAM-'' @ f_camera n
     @ ''_CH-'' @ f_channel n
     @ ''_PL-'' @ f_plane n
     @ ''-outOf-'' @ f_total n
     @ (if f_info n = [] then [] else ''_'' @ f_info n)
     @ ''.'' @ f_ext n"

definition segments :: "canonical_name \<Rightarrow> string list" where
  "segments n =
     [if f_dataset n = [] then [] else f_dataset n @ ''_'', f_id n @ ''_'', f_specimen n @ ''_'',
      f_time_point n @ ''_'', f_illumination n @ ''_'', f_camera n @ ''_'', f_channel n @ ''_'',
      f_plane n @ ''-'', f_total n @ (if f_info n = [] then [] else ''_'' @ f_info n), f_ext n]"

definition delim_free :: "string \<Rightarrow> bool" where
  "delim_free x = list_all (\<lambda>t. match_alt delimiters t = None) (suffixes x)"

section \<open>The number and the info of the ninth part\<close>

text \<open>
  Of the ninth part, \<open>total_token\<close> is the text given to \<open>int()\<close> and \<open>info_of\<close> the text
  after the first underscore, as \<open>__init__\<close> takes them.
\<close>

definition total_token :: "string \<Rightarrow> string" where
  "total_token p8 = strip ''-_'' (hd (split_once CHR ''_'' (strip ''-_'' p8)))"

definition info_of :: "string \<Rightarrow> string" where
  "info_of p8 = (if CHR ''_'' \<in> set (strip ''-_'' p8)
     then tl (dropWhile (\<lambda>c. c \<noteq> CHR ''_'') (strip ''-_'' p8)) else [])"

section \<open>Valid canonical names and their values\<close>

text \<open>
  A canonical name is valid when its numbers are non-empty runs of digits and its free-form
  fields hold no delimiter and no path separator; \<open>dataset_name\<close> and \<open>timelapse_id\<close>
  neither begin nor end with \<open>-\<close> or \<open>_\<close>, and \<open>additional_info\<close> does not end with one of them
  (these characters separate the fields and \<open>__init__\<close> strips them). \<open>field_values\<close> is the
  record such a name stands for; \<open>fields_of\<close> is the text \<open>get_name\<close> gives to each field of a
  record.
\<close>

definition sep_char :: "char \<Rightarrow> bool" where
  "sep_char c = (c = CHR ''-'' \<or> c = CHR ''_'')"

definition no_edge_seps :: "string \<Rightarrow> bool" where
  "no_edge_seps x = (x = [] \<or> (\<not> sep_char (hd x) \<and> \<not> sep_char (last x)))"

definition free_text :: "string \<Rightarrow> bool" where
  "free_text x = (delim_free x \<and> CHR ''/'' \<notin> set x)"

definition valid_fields :: "canonical_name \<Rightarrow> bool" where
  "valid_fields n =
     (free_text (f_dataset n) \<and> no_edge_seps (f_dataset n)
      \<and> free_text (f_id n) \<and> no_edge_seps (f_id n)
      \<and> digit_string (f_specimen n) \<and> digit_string (f_time_point n)
      \<and> digit_string (f_illumination n) \<and> digit_string (f_camera n)
      \<and> digit_string (f_channel n) \<and> digit_string (f_plane n) \<and> digit_string (f_total n)
      \<and> free_text (f_info n) \<and> (f_info n = [] \<or> \<not> sep_char (last (f_info n)))
      \<and> free_text (f_ext n))"





section \<open>Example data\<close>

text \<open>
  A world with the file of the documented example, a world with a malformed file name
  beside it, and the fields of a canonical name whose specimen number is not padded and
  whose extension is in upper case.
\<close>

definition example_world :: world where
  "example_world = \<lparr>files = [''/in/_channel01_position0002_time0003_view0_z0004.tif'' \<mapsto> ''pixels''],
     listdir = (\<lambda>d. if d = ''/in'' then [''_channel01_position0002_time0003_view0_z0004.tif''] else []),
     getmtime = (\<lambda>p. 0), writable = (\<lambda>p. True), stdout = []\<rparr>"

definition mixed_world :: world where
  "mixed_world = \<lparr>files = [''/in/randomfile.tif'' \<mapsto> ''junk'',
       ''/in/_channel01_position0002_time0003_view0_z0004.tif'' \<mapsto> ''pixels''],
     listdir = (\<lambda>d. if d = ''/in''
       then [''_channel01_position0002_time0003_view0_z0004.tif'', ''randomfile.tif''] else []),
     getmtime = (\<lambda>p. if p = ''/in/randomfile.tif'' then 1 else 2),
     writable = (\<lambda>p. True), stdout = []\<rparr>"

definition example_fields :: canonical_name where
  "example_fields = \<lparr>f_dataset = ''fish'', f_id = ''20240808-111112'', f_specimen = ''1'',
     f_time_point = ''0002'', f_illumination = ''0'', f_camera = ''0'', f_channel = ''01'',
     f_plane = ''0003'', f_total = ''0150'', f_info = ''blaBla'', f_ext = ''TIF''\<rparr>"


section \<open>Lemmas on matching and on \<open>int()\<close>\<close>

lemma strip_prefix_iff: "strip_prefix d s = Some r \<longleftrightarrow> s = d @ r"
  by (induction d s rule: strip_prefix.induct) auto

lemma strip_prefix_append: "strip_prefix d (d @ s) = Some s"
  by (simp add: strip_prefix_iff)

lemma strip_prefix_None_iff: "strip_prefix d s = None \<longleftrightarrow> \<not> prefix d s"
  by (induction d s rule: strip_prefix.induct) auto

lemma match_run_append:
  assumes "g \<noteq> []" "\<forall>c\<in>set g. cls c" "rest = [] \<or> \<not> cls (hd rest)"
  shows "match_run cls (g @ rest) = Some (g, rest)"
proof -
  have "takeWhile cls (g @ rest) = g" "dropWhile cls (g @ rest) = rest"
    using assms by (cases rest; simp add: takeWhile_append2 dropWhile_append2)+
  then show ?thesis using assms by (simp add: match_run_def)
qed

lemma match_run_Some:
  "match_run cls s = Some (g, rest) \<Longrightarrow>
     s = g @ rest \<and> g \<noteq> [] \<and> (\<forall>c\<in>set g. cls c) \<and> (rest = [] \<or> \<not> cls (hd rest))"
proof -
  assume a: "match_run cls s = Some (g, rest)"
  then have g: "g = takeWhile cls s" and r: "rest = dropWhile cls s" and ne: "g \<noteq> []"
    by (auto simp: match_run_def split: if_splits)
  have "rest = [] \<or> \<not> cls (hd rest)" unfolding r using hd_dropWhile [of cls s] by blast
  moreover have "\<forall>c\<in>set g. cls c" unfolding g by (auto dest: set_takeWhileD)
  ultimately show ?thesis using g r ne by simp
qed

lemma is_digit_not_space: "is_digit c \<Longrightarrow> \<not> is_space c"
  by (auto simp: is_digit_def is_space_def)

lemma underscores_ok_digits: "\<forall>c\<in>set g. is_digit c \<Longrightarrow> underscores_ok g"
  by (induction g rule: underscores_ok.induct) (auto simp: is_digit_def)

lemma py_int_digits:
  assumes "g \<noteq> []" "\<forall>c\<in>set g. is_digit c"
  shows "py_int g = Some (int (digits_value g))"
proof -
  obtain c cs where g: "g = c # cs" using assms(1) by (cases g) auto
  have c: "is_digit c" using assms(2) g by simp
  then have nsp: "\<not> is_space c" and nsign: "c \<noteq> CHR ''+''" "c \<noteq> CHR ''-''" "c \<noteq> CHR ''_''"
    by (auto simp: is_digit_def is_space_def)
  have tw: "takeWhile (\<lambda>c. is_digit c \<or> c = CHR ''_'') g = g"
    and dw: "dropWhile (\<lambda>c. is_digit c \<or> c = CHR ''_'') g = []"
    using assms(2) by auto
  have s1: "dropWhile is_space g = g" using nsp g by simp
  show ?thesis
    unfolding py_int_def s1 Let_def
    using nsign underscores_ok_digits [OF assms(2)] tw dw
    by (simp add: g)
qed

lemma digits_then:
  assumes "digit_string g" "\<not> is_digit c"
  shows "match_run is_digit (g @ c # s) = Some (g, c # s)"
  using assms match_run_append [of g is_digit "c # s"]
  by (simp add: digit_string_def list_all_iff)

lemma xOpenSPIM_match_name:
  assumes "digit_string g1" "digit_string g2" "digit_string g3" "digit_string g4"
    "digit_string g5" "word_string g6" "rest = [] \<or> \<not> is_word (hd rest)"
  shows "xOpenSPIM_match (xOpenSPIM_name g1 g2 g3 g4 g5 g6 @ rest) = Some (g1, g2, g3, g4, g5, g6)"
proof -
  have nd: "\<not> is_digit CHR ''_''" "\<not> is_digit CHR ''.''" by (simp_all add: is_digit_def)
  have w: "match_run is_word (g6 @ rest) = Some (g6, rest)"
    using assms(6,7) match_run_append [of g6 is_word rest] by (simp add: word_string_def list_all_iff)
  show ?thesis
    unfolding xOpenSPIM_match_def xOpenSPIM_name_def
    using digits_then [OF assms(1) nd(1)] digits_then [OF assms(2) nd(1)]
      digits_then [OF assms(3) nd(1)] digits_then [OF assms(4) nd(1)]
      digits_then [OF assms(5) nd(2)] w
    by (simp add: strip_prefix_iff)
qed

lemma xOpenSPIM_match_Some:
  assumes "xOpenSPIM_match f = Some (g1, g2, g3, g4, g5, g6)"
  shows "\<exists>rest. f = xOpenSPIM_name g1 g2 g3 g4 g5 g6 @ rest
     \<and> digit_string g1 \<and> digit_string g2 \<and> digit_string g3 \<and> digit_string g4
     \<and> digit_string g5 \<and> word_string g6 \<and> (rest = [] \<or> \<not> is_word (hd rest))"
  using assms
  unfolding xOpenSPIM_match_def xOpenSPIM_name_def digit_string_def word_string_def list_all_iff
  by (auto simp: Option.bind_eq_Some_conv strip_prefix_iff dest!: match_run_Some)

lemma get_ImageFile_of_match:
  assumes "xOpenSPIM_match f = Some (g1, g2, g3, g4, g5, g6)"
  shows "get_ImageFile_from_xOpenSPIM_filename f d =
     Inr \<lparr>dataset_name = [], timelapse_id = ''20240808-111112'',
       time_point = int (digits_value g3), specimen = int (digits_value g2), illumination = 0,
       camera = 0, channel = int (digits_value g1), plane = int (digits_value g5),
       total_num_planes = 1, additional_info = [], extension = g6, path_to_image_dir = d\<rparr>"
proof -
  from xOpenSPIM_match_Some [OF assms]
  have "digit_string g1" "digit_string g2" "digit_string g3" "digit_string g5" by auto
  then have "py_int g1 = Some (int (digits_value g1))" "py_int g2 = Some (int (digits_value g2))"
    "py_int g3 = Some (int (digits_value g3))" "py_int g5 = Some (int (digits_value g5))"
    by (simp_all add: digit_string_def list_all_iff py_int_digits)
  then show ?thesis
    using assms by (simp add: get_ImageFile_from_xOpenSPIM_filename_def class_defaults_def)
qed

lemma get_ImageFile_no_match:
  "xOpenSPIM_match f = None \<Longrightarrow> get_ImageFile_from_xOpenSPIM_filename f d =
     Inl (NotImagePlaneFile ''xOpenSPIM file name is improperly formatted!'')"
  by (simp add: get_ImageFile_from_xOpenSPIM_filename_def)

section \<open>The claims on the ingest grammar\<close>

text \<open>
  Claim C5. For every file name that the ingest pattern matches, that is every name made of
  the literal parts, five digit groups and a word group (followed by nothing or by a
  character that is not a word character), the decoded record takes \<open>channel\<close>,
  \<open>specimen\<close> (the position group), \<open>time_point\<close>, \<open>plane\<close> (the digits after \<open>z\<close>) and
  \<open>extension\<close> from the groups; \<open>camera\<close> and \<open>illumination\<close> are 0, \<open>total_num_planes\<close> is 1,
  \<open>additional_info\<close> and \<open>dataset_name\<close> are empty, \<open>timelapse_id\<close> is the fixed value, and
  the view group \<open>g4\<close> reaches no field.
\<close>

theorem ingest_field_mapping:
  assumes "digit_string g1" "digit_string g2" "digit_string g3" "digit_string g4"
    "digit_string g5" "word_string g6" "rest = [] \<or> \<not> is_word (hd rest)"
  shows "get_ImageFile_from_xOpenSPIM_filename (xOpenSPIM_name g1 g2 g3 g4 g5 g6 @ rest) file_dir =
     Inr \<lparr>dataset_name = [], timelapse_id = ''20240808-111112'',
       time_point = int (digits_value g3), specimen = int (digits_value g2), illumination = 0,
       camera = 0, channel = int (digits_value g1), plane = int (digits_value g5),
       total_num_planes = 1, additional_info = [], extension = g6,
       path_to_image_dir = file_dir\<rparr>"
  by (rule get_ImageFile_of_match) (rule xOpenSPIM_match_name [OF assms])

theorem ingest_field_mapping_witness:
  "digit_string ''01'' \<and> digit_string ''0002'' \<and> digit_string ''0003'' \<and> digit_string ''7''
   \<and> digit_string ''0004'' \<and> word_string ''tif''
   \<and> get_ImageFile_from_xOpenSPIM_filename ''_channel01_position0002_time0003_view7_z0004.tif'' ''/in'' =
     Inr \<lparr>dataset_name = [], timelapse_id = ''20240808-111112'', time_point = 3, specimen = 2,
       illumination = 0, camera = 0, channel = 1, plane = 4, total_num_planes = 1,
       additional_info = [], extension = ''tif'', path_to_image_dir = ''/in''\<rparr>"
proof -
  have d: "digit_string ''01''" "digit_string ''0002''" "digit_string ''0003''" "digit_string ''7''"
    "digit_string ''0004''"
    by (simp_all add: digit_string_def is_digit_def)
  have w: "word_string ''tif''" by (simp add: word_string_def is_word_def is_alpha_def is_numeric_def)
  have v: "digits_value ''01'' = 1" "digits_value ''0002'' = 2" "digits_value ''0003'' = 3"
    "digits_value ''0004'' = 4"
    by (simp_all add: digits_value_def digit_val_def)
  show ?thesis
    using d w ingest_field_mapping [OF d w, of "[]" "''/in''"]
    by (simp add: xOpenSPIM_name_def v)
qed

lemma xOpenSPIM_name_ext: "xOpenSPIM_name g1 g2 g3 g4 g5 (g6 @ x) = xOpenSPIM_name g1 g2 g3 g4 g5 g6 @ x"
  by (simp add: xOpenSPIM_name_def)

lemma xOpenSPIM_match_extend:
  assumes "xOpenSPIM_match f = Some (g1, g2, g3, g4, g5, g6)"
  shows "\<exists>g6'. xOpenSPIM_match (f @ t) = Some (g1, g2, g3, g4, g5, g6')"
proof -
  from xOpenSPIM_match_Some [OF assms] obtain rest where
    f: "f = xOpenSPIM_name g1 g2 g3 g4 g5 g6 @ rest"
    and d: "digit_string g1" "digit_string g2" "digit_string g3" "digit_string g4" "digit_string g5"
    and w: "word_string g6" and r: "rest = [] \<or> \<not> is_word (hd rest)"
    by blast
  show ?thesis
  proof (cases "rest = []")
    case True
    let ?g = "g6 @ takeWhile is_word t"
    have w': "word_string ?g"
      using w by (auto simp: word_string_def list_all_iff dest: set_takeWhileD)
    have r': "dropWhile is_word t = [] \<or> \<not> is_word (hd (dropWhile is_word t))"
      using hd_dropWhile [of is_word t] by blast
    have "f @ t = xOpenSPIM_name g1 g2 g3 g4 g5 ?g @ dropWhile is_word t"
      using True f by (simp add: xOpenSPIM_name_ext)
    then show ?thesis using xOpenSPIM_match_name [OF d w' r'] by auto
  next
    case False
    then have r': "rest @ t = [] \<or> \<not> is_word (hd (rest @ t))" using r by simp
    have "f @ t = xOpenSPIM_name g1 g2 g3 g4 g5 g6 @ (rest @ t)" using f by simp
    then show ?thesis using xOpenSPIM_match_name [OF d w r'] by auto
  qed
qed

lemma xOpenSPIM_match_prefix:
  "\<not> prefix ''_channel'' f \<Longrightarrow> xOpenSPIM_match f = None"
  using strip_prefix_None_iff [of "''_channel''" f] by (simp add: xOpenSPIM_match_def)

text \<open>
  Claim C10. Ingest decoding is anchored at the start of the file name only. What follows
  the matched portion is ignored: a matching name followed by characters that do not
  continue the extension decodes to the same record, with the extension of the matched
  portion; and whenever a name is accepted, the name with any characters appended is
  accepted as well. A name that does not begin with \<open>_channel\<close> is rejected.
\<close>

theorem ingest_anchored_at_start:
  "(digit_string g1 \<and> digit_string g2 \<and> digit_string g3 \<and> digit_string g4 \<and> digit_string g5
      \<and> word_string g6 \<and> (t = [] \<or> \<not> is_word (hd t)) \<longrightarrow>
      get_ImageFile_from_xOpenSPIM_filename (xOpenSPIM_name g1 g2 g3 g4 g5 g6 @ t) d
        = get_ImageFile_from_xOpenSPIM_filename (xOpenSPIM_name g1 g2 g3 g4 g5 g6) d
      \<and> (\<exists>r. get_ImageFile_from_xOpenSPIM_filename (xOpenSPIM_name g1 g2 g3 g4 g5 g6) d = Inr r
            \<and> extension r = g6))
   \<and> ((\<exists>r. get_ImageFile_from_xOpenSPIM_filename f d = Inr r) \<longrightarrow>
        (\<exists>r. get_ImageFile_from_xOpenSPIM_filename (f @ u) d = Inr r))
   \<and> (\<not> prefix ''_channel'' f' \<longrightarrow>
        get_ImageFile_from_xOpenSPIM_filename f' d
          = Inl (NotImagePlaneFile ''xOpenSPIM file name is improperly formatted!''))"
proof (intro conjI impI)
  assume a: "digit_string g1 \<and> digit_string g2 \<and> digit_string g3 \<and> digit_string g4
    \<and> digit_string g5 \<and> word_string g6 \<and> (t = [] \<or> \<not> is_word (hd t))"
  then have m1: "xOpenSPIM_match (xOpenSPIM_name g1 g2 g3 g4 g5 g6 @ t) = Some (g1, g2, g3, g4, g5, g6)"
    by (intro xOpenSPIM_match_name) simp_all
  from a have m2: "xOpenSPIM_match (xOpenSPIM_name g1 g2 g3 g4 g5 g6 @ []) = Some (g1, g2, g3, g4, g5, g6)"
    by (intro xOpenSPIM_match_name) simp_all
  show "get_ImageFile_from_xOpenSPIM_filename (xOpenSPIM_name g1 g2 g3 g4 g5 g6 @ t) d
        = get_ImageFile_from_xOpenSPIM_filename (xOpenSPIM_name g1 g2 g3 g4 g5 g6) d"
    using get_ImageFile_of_match [OF m1, of d] get_ImageFile_of_match [OF m2, of d] by simp
  show "\<exists>r. get_ImageFile_from_xOpenSPIM_filename (xOpenSPIM_name g1 g2 g3 g4 g5 g6) d = Inr r
      \<and> extension r = g6"
    using get_ImageFile_of_match [OF m2, of d] by simp
next
  assume a: "(\<exists>r. get_ImageFile_from_xOpenSPIM_filename f d = Inr r)"
  then obtain g1 g2 g3 g4 g5 g6 where m: "xOpenSPIM_match f = Some (g1, g2, g3, g4, g5, g6)"
    using get_ImageFile_no_match [of f d] by (cases "xOpenSPIM_match f") auto
  from xOpenSPIM_match_extend [OF m, of u] obtain g6' where
    "xOpenSPIM_match (f @ u) = Some (g1, g2, g3, g4, g5, g6')" by blast
  from get_ImageFile_of_match [OF this, of d]
  show "(\<exists>r. get_ImageFile_from_xOpenSPIM_filename (f @ u) d = Inr r)" by simp
next
  assume "\<not> prefix ''_channel'' f'"
  then show "get_ImageFile_from_xOpenSPIM_filename f' d
          = Inl (NotImagePlaneFile ''xOpenSPIM file name is improperly formatted!'')"
    by (simp add: xOpenSPIM_match_prefix get_ImageFile_no_match)
qed

theorem ingest_anchored_at_start_witness:
  "digit_string ''01'' \<and> digit_string ''0002'' \<and> digit_string ''0003'' \<and> digit_string ''0''
   \<and> digit_string ''0004'' \<and> word_string ''tif'' \<and> \<not> is_word (hd ''.bak'')
   \<and> \<not> prefix ''_channel'' ''x_channel01_position0002_time0003_view0_z0004.tif''
   \<and> get_ImageFile_from_xOpenSPIM_filename ''_channel01_position0002_time0003_view0_z0004.tif.bak'' []
       = get_ImageFile_from_xOpenSPIM_filename ''_channel01_position0002_time0003_view0_z0004.tif'' []
   \<and> (\<exists>r. get_ImageFile_from_xOpenSPIM_filename ''_channel01_position0002_time0003_view0_z0004.tif'' [] = Inr r
         \<and> extension r = ''tif'')
   \<and> (\<exists>r. get_ImageFile_from_xOpenSPIM_filename ''_channel01_position0002_time0003_view0_z0004.tif.bak'' [] = Inr r)
   \<and> get_ImageFile_from_xOpenSPIM_filename ''x_channel01_position0002_time0003_view0_z0004.tif'' []
       = Inl (NotImagePlaneFile ''xOpenSPIM file name is improperly formatted!'')"
proof -
  have d: "digit_string ''01''" "digit_string ''0002''" "digit_string ''0003''" "digit_string ''0''"
    "digit_string ''0004''"
    by (simp_all add: digit_string_def is_digit_def)
  have w: "word_string ''tif''" by (simp add: word_string_def is_word_def is_alpha_def is_numeric_def)
  have t: "\<not> is_word (hd ''.bak'')" by (simp add: is_word_def is_alpha_def is_numeric_def is_digit_def)
  have p: "\<not> prefix ''_channel'' ''x_channel01_position0002_time0003_view0_z0004.tif''" by simp
  show ?thesis
    using d w t p
      ingest_anchored_at_start [of "''01''" "''0002''" "''0003''" "''0''" "''0004''" "''tif''"
        "''.bak''" "[]" "''_channel01_position0002_time0003_view0_z0004.tif''" "''.bak''"
        "''x_channel01_position0002_time0003_view0_z0004.tif''"]
    by (auto simp: xOpenSPIM_name_def)
qed

section \<open>Lemmas on paths\<close>

lemma takeWhile_no_slash:
  "CHR ''/'' \<notin> set b \<Longrightarrow> takeWhile (\<lambda>c. c \<noteq> CHR ''/'') (rev b @ CHR ''/'' # x) = rev b"
  by (induction b rule: rev_induct) auto

lemma basename_append_slash:
  "CHR ''/'' \<notin> set b \<Longrightarrow> basename (a @ CHR ''/'' # b) = b"
  by (simp add: basename_def takeWhile_no_slash)

lemma basename_no_slash: "CHR ''/'' \<notin> set b \<Longrightarrow> basename b = b"
proof -
  assume "CHR ''/'' \<notin> set b"
  then have h: "takeWhile (\<lambda>c. c \<noteq> CHR ''/'') (rev b) = rev b"
    by (intro takeWhile_eq_all_conv [THEN iffD2]) auto
  show ?thesis unfolding basename_def h by simp
qed

lemma basename_path_join: "CHR ''/'' \<notin> set b \<Longrightarrow> basename (path_join a b) = b"
proof (cases a rule: rev_cases)
  case Nil
  then show "CHR ''/'' \<notin> set b \<Longrightarrow> ?thesis"
    by (simp add: path_join_def basename_no_slash)
next
  case (snoc as c)
  assume b: "CHR ''/'' \<notin> set b"
  then have hd: "b = [] \<or> hd b \<noteq> CHR ''/''" by (cases b) auto
  show ?thesis
  proof (cases "c = CHR ''/''")
    case True
    then show ?thesis using hd snoc basename_append_slash [OF b, of as]
      by (auto simp: path_join_def)
  next
    case False
    then show ?thesis using hd snoc basename_append_slash [OF b, of "as @ [c]"]
      by (auto simp: path_join_def)
  qed
qed

section \<open>The documented example, end to end\<close>

lemma example_decoded:
  "get_ImageFile_from_xOpenSPIM_filename ''_channel01_position0002_time0003_view0_z0004.tif'' [] =
     Inr \<lparr>dataset_name = [], timelapse_id = ''20240808-111112'', time_point = 3, specimen = 2,
       illumination = 0, camera = 0, channel = 1, plane = 4, total_num_planes = 1,
       additional_info = [], extension = ''tif'', path_to_image_dir = []\<rparr>"
  by code_simp

lemma example_name:
  "get_name \<lparr>dataset_name = [], timelapse_id = ''20240808-111112'', time_point = 3, specimen = 2,
       illumination = 0, camera = 0, channel = 1, plane = 4, total_num_planes = 1,
       additional_info = [], extension = ''tif'', path_to_image_dir = []\<rparr>
   = ''timelapseID-20240808-111112_SPC-0002_TP-0003_ILL-0_CAM-0_CH-01_PL-0004-outOf-0001.tif''"
  by code_simp

text \<open>
  Claim C2. Decoding the ingest-format name
  \<open>_channel01_position0002_time0003_view0_z0004.tif\<close> and encoding the record with
  \<open>get_name\<close> gives exactly
  \<open>timelapseID-20240808-111112_SPC-0002_TP-0003_ILL-0_CAM-0_CH-01_PL-0004-outOf-0001.tif\<close>,
  and \<open>process\<close> copies a source file of that base name to this name joined with the
  output folder, when the source exists and the destination can be written.
\<close>

theorem documented_example_renamed:
  assumes "basename file_path = ''_channel01_position0002_time0003_view0_z0004.tif''"
    and "files w file_path = Some data"
    and "writable w (path_join (output_folder h)
      ''timelapseID-20240808-111112_SPC-0002_TP-0003_ILL-0_CAM-0_CH-01_PL-0004-outOf-0001.tif'')"
  shows "map_sum id get_name (get_ImageFile_from_xOpenSPIM_filename (basename file_path) [])
      = Inr ''timelapseID-20240808-111112_SPC-0002_TP-0003_ILL-0_CAM-0_CH-01_PL-0004-outOf-0001.tif''
    \<and> process h file_path w =
      print (Copied file_path (path_join (output_folder h)
          ''timelapseID-20240808-111112_SPC-0002_TP-0003_ILL-0_CAM-0_CH-01_PL-0004-outOf-0001.tif''))
        (w\<lparr>files := (files w)(path_join (output_folder h)
          ''timelapseID-20240808-111112_SPC-0002_TP-0003_ILL-0_CAM-0_CH-01_PL-0004-outOf-0001.tif''
            \<mapsto> data)\<rparr>)"
proof -
  let ?N = "''timelapseID-20240808-111112_SPC-0002_TP-0003_ILL-0_CAM-0_CH-01_PL-0004-outOf-0001.tif''"
  have "basename (path_join (output_folder h) ?N) = ?N"
    by (rule basename_path_join) simp
  then have ne: "file_path \<noteq> path_join (output_folder h) ?N"
    using assms(1) by auto
  show ?thesis
    using assms ne
    by (simp add: process_def example_decoded example_name shutil_copy_def Let_def)
qed

theorem documented_example_renamed_witness:
  "basename ''/in/_channel01_position0002_time0003_view0_z0004.tif''
      = ''_channel01_position0002_time0003_view0_z0004.tif''
   \<and> files example_world ''/in/_channel01_position0002_time0003_view0_z0004.tif'' = Some ''pixels''
   \<and> writable example_world
        ''/out/timelapseID-20240808-111112_SPC-0002_TP-0003_ILL-0_CAM-0_CH-01_PL-0004-outOf-0001.tif''
   \<and> files (process \<lparr>output_folder = ''/out''\<rparr>
          ''/in/_channel01_position0002_time0003_view0_z0004.tif'' example_world)
        ''/out/timelapseID-20240808-111112_SPC-0002_TP-0003_ILL-0_CAM-0_CH-01_PL-0004-outOf-0001.tif''
      = Some ''pixels''
   \<and> stdout (process \<lparr>output_folder = ''/out''\<rparr>
          ''/in/_channel01_position0002_time0003_view0_z0004.tif'' example_world)
      = [Copied ''/in/_channel01_position0002_time0003_view0_z0004.tif''
          ''/out/timelapseID-20240808-111112_SPC-0002_TP-0003_ILL-0_CAM-0_CH-01_PL-0004-outOf-0001.tif'']"
proof -
  have b: "basename ''/in/_channel01_position0002_time0003_view0_z0004.tif''
      = ''_channel01_position0002_time0003_view0_z0004.tif''"
    by (simp add: basename_def)
  have f: "files example_world ''/in/_channel01_position0002_time0003_view0_z0004.tif'' = Some ''pixels''"
    by (simp add: example_world_def)
  have j: "path_join (output_folder \<lparr>output_folder = ''/out''\<rparr>)
      ''timelapseID-20240808-111112_SPC-0002_TP-0003_ILL-0_CAM-0_CH-01_PL-0004-outOf-0001.tif''
    = ''/out/timelapseID-20240808-111112_SPC-0002_TP-0003_ILL-0_CAM-0_CH-01_PL-0004-outOf-0001.tif''"
    by (simp add: path_join_def)
  have wr: "writable example_world (path_join (output_folder \<lparr>output_folder = ''/out''\<rparr>)
      ''timelapseID-20240808-111112_SPC-0002_TP-0003_ILL-0_CAM-0_CH-01_PL-0004-outOf-0001.tif'')"
    by (simp add: example_world_def)
  show ?thesis
    using b f wr documented_example_renamed [OF b f wr]
    unfolding j by (simp add: print_def example_world_def)
qed

section \<open>Errors stay within one file\<close>

lemma randomfile_rejected:
  "get_ImageFile_from_xOpenSPIM_filename (basename ''/in/randomfile.tif'') [] =
     Inl (NotImagePlaneFile ''xOpenSPIM file name is improperly formatted!'')"
  by code_simp

text \<open>
  Claim C9. \<open>process\<close> never passes an exception to its caller: in every case it returns,
  having printed one line. When the decoding of the base name fails, the line is the
  error, nothing is copied and the files are what they were; the loop of the scan goes on
  with the files that follow.
\<close>

theorem process_contains_errors:
  "(\<exists>l. stdout (process h file_path w) = stdout w @ [l])
   \<and> (get_ImageFile_from_xOpenSPIM_filename (basename file_path) [] = Inl e \<longrightarrow>
        process h file_path w = print (Error_while_copying (Decode e)) w
        \<and> files (process h file_path w) = files w
        \<and> process_new h (file_path # rest) (w, seen) =
            process_new h rest (print (Error_while_copying (Decode e)) w, insert file_path seen))"
  by (auto simp: process_def print_def shutil_copy_def Let_def split: sum.splits option.splits)

theorem process_contains_errors_witness:
  "get_ImageFile_from_xOpenSPIM_filename (basename ''/in/randomfile.tif'') [] =
     Inl (NotImagePlaneFile ''xOpenSPIM file name is improperly formatted!'')
   \<and> files (process \<lparr>output_folder = ''/out''\<rparr> ''/in/randomfile.tif'' mixed_world) = files mixed_world
   \<and> stdout (process \<lparr>output_folder = ''/out''\<rparr> ''/in/randomfile.tif'' mixed_world) =
       [Error_while_copying (Decode (NotImagePlaneFile ''xOpenSPIM file name is improperly formatted!''))]
   \<and> stdout (fst (process_new \<lparr>output_folder = ''/out''\<rparr>
         [''/in/randomfile.tif'', ''/in/_channel01_position0002_time0003_view0_z0004.tif'']
         (mixed_world, {}))) =
       [Error_while_copying (Decode (NotImagePlaneFile ''xOpenSPIM file name is improperly formatted!'')),
        Copied ''/in/_channel01_position0002_time0003_view0_z0004.tif''
          ''/out/timelapseID-20240808-111112_SPC-0002_TP-0003_ILL-0_CAM-0_CH-01_PL-0004-outOf-0001.tif'']"
proof -
  note step = process_contains_errors [of "\<lparr>output_folder = ''/out''\<rparr>" "''/in/randomfile.tif''"
      mixed_world "NotImagePlaneFile ''xOpenSPIM file name is improperly formatted!''"
      "[''/in/_channel01_position0002_time0003_view0_z0004.tif'']" "{}"]
  have b: "basename ''/in/_channel01_position0002_time0003_view0_z0004.tif''
      = ''_channel01_position0002_time0003_view0_z0004.tif''"
    by (simp add: basename_def)
  have j: "path_join ''/out''
      ''timelapseID-20240808-111112_SPC-0002_TP-0003_ILL-0_CAM-0_CH-01_PL-0004-outOf-0001.tif''
    = ''/out/timelapseID-20240808-111112_SPC-0002_TP-0003_ILL-0_CAM-0_CH-01_PL-0004-outOf-0001.tif''"
    by (simp add: path_join_def)
  show ?thesis
    using step randomfile_rejected
    by (simp add: print_def mixed_world_def process_def b example_decoded example_name
        shutil_copy_def Let_def j)
qed

section \<open>The reconcile tick\<close>

lemma collect_new_eq:
  "collect_new d seen w acc names =
     acc @ filter (\<lambda>p. isfile w p \<and> p \<notin> seen) (map (path_join d) names)"
  by (induction names arbitrary: acc) (simp_all add: Let_def)

lemma process_new_eq:
  "process_new h fs (w, seen) = (foldl (\<lambda>w f. process h f w) w fs, seen \<union> set fs)"
  by (induction fs arbitrary: w seen) simp_all

lemma scan_directory_eq:
  "scan_directory d seen h w =
     (foldl (\<lambda>w f. process h f w) w (tick_order d seen w), seen \<union> set (tick_order d seen w))"
  by (simp add: scan_directory_def collect_new_eq process_new_eq tick_order_def)

lemma reconcile_tick_example:
  "tick_order ''/in'' {} mixed_world =
     [''/in/randomfile.tif'', ''/in/_channel01_position0002_time0003_view0_z0004.tif'']"
  by (simp add: tick_order_def mixed_world_def path_join_def isfile_def)

text \<open>
  Claim C6. One tick of the periodic scan processes exactly the regular files directly in
  the watched directory whose paths are not in the set of processed files, in ascending
  order of modification time (files of equal time keep the order of the listing); it calls
  \<open>process\<close> on each in that order and adds each path to the set, whatever \<open>process\<close> did
  with it.
\<close>

theorem reconcile_tick_contract:
  "scan_directory input_folder seen h w =
     (foldl (\<lambda>w f. process h f w) w (tick_order input_folder seen w),
      seen \<union> set (tick_order input_folder seen w))
   \<and> set (tick_order input_folder seen w) =
       {p \<in> path_join input_folder ` set (listdir w input_folder). isfile w p \<and> p \<notin> seen}
   \<and> sorted (map (getmtime w) (tick_order input_folder seen w))
   \<and> (\<forall>k. filter (\<lambda>p. getmtime w p = k) (tick_order input_folder seen w) =
         filter (\<lambda>p. getmtime w p = k)
           (filter (\<lambda>p. isfile w p \<and> p \<notin> seen)
              (map (path_join input_folder) (listdir w input_folder))))"
proof (intro conjI allI)
  show "scan_directory input_folder seen h w =
     (foldl (\<lambda>w f. process h f w) w (tick_order input_folder seen w),
      seen \<union> set (tick_order input_folder seen w))"
    by (rule scan_directory_eq)
  show "set (tick_order input_folder seen w) =
       {p \<in> path_join input_folder ` set (listdir w input_folder). isfile w p \<and> p \<notin> seen}"
    by (auto simp: tick_order_def)
  show "sorted (map (getmtime w) (tick_order input_folder seen w))"
    by (simp add: tick_order_def)
  show "filter (\<lambda>p. getmtime w p = k) (tick_order input_folder seen w) =
         filter (\<lambda>p. getmtime w p = k)
           (filter (\<lambda>p. isfile w p \<and> p \<notin> seen)
              (map (path_join input_folder) (listdir w input_folder)))" for k
    unfolding tick_order_def by (rule sort_key_stable)
qed

section \<open>The two triggers on one path\<close>








section \<open>Lemmas on the split\<close>

lemma match_alt_None_iff: "match_alt ds s = None \<longleftrightarrow> (\<forall>d\<in>set ds. \<not> prefix d s)"
  by (induction ds) (auto simp: strip_prefix_None_iff strip_prefix_iff split: option.splits)

lemma match_alt_delim:
  "match_alt delimiters (''timelapseID-'' @ r) = Some r"
  "match_alt delimiters (''SPC-'' @ r) = Some r"
  "match_alt delimiters (''TP-'' @ r) = Some r"
  "match_alt delimiters (''ILL-'' @ r) = Some r"
  "match_alt delimiters (''CAM-'' @ r) = Some r"
  "match_alt delimiters (''CH-'' @ r) = Some r"
  "match_alt delimiters (''PL-'' @ r) = Some r"
  "match_alt delimiters (''outOf-'' @ r) = Some r"
  "match_alt delimiters (''.'' @ r) = Some r"
  by (simp_all add: delimiters_def)

lemma delim_free_iff: "delim_free x \<longleftrightarrow> (\<forall>t. suffix t x \<longrightarrow> (\<forall>d\<in>set delimiters. \<not> prefix d t))"
  by (auto simp: delim_free_def list_all_iff match_alt_None_iff)

declare re_split_from.simps [simp del]

lemma re_split_from_skip:
  assumes "\<And>t. t \<noteq> [] \<Longrightarrow> suffix t x \<Longrightarrow> match_alt delimiters (t @ rest) = None"
  shows "re_split_from seg (x @ rest) = re_split_from (seg @ x) rest"
  using assms
proof (induction x arbitrary: seg)
  case Nil
  then show ?case by simp
next
  case (Cons c x)
  have "match_alt delimiters ((c # x) @ rest) = None" by (rule Cons.prems) simp_all
  then have "re_split_from seg ((c # x) @ rest) = re_split_from (seg @ [c]) (x @ rest)"
    by (simp add: re_split_from.simps)
  also have "\<dots> = re_split_from ((seg @ [c]) @ x) rest"
    by (rule Cons.IH) (simp add: Cons.prems suffix_Cons)
  finally show ?case by simp
qed

lemma re_split_from_match:
  "match_alt delimiters (d @ rest) = Some rest \<Longrightarrow> d \<noteq> [] \<Longrightarrow>
     re_split_from seg (d @ rest) = seg # re_split_from [] rest"
  by (cases d) (simp_all add: re_split_from.simps)

lemma prefix_inside:
  assumes "prefix d (t @ c # rest)" "c \<notin> set d"
  shows "prefix d t"
  using assms by (auto simp: prefix_append prefix_Cons)

lemma delimiter_head: "d \<in> set delimiters \<Longrightarrow> d \<noteq> [] \<and> hd d \<in> set ''tSTICPo.''"
  by (auto simp: delimiters_def)

lemma no_delimiter_head:
  assumes "t \<noteq> []" "hd t \<notin> set ''tSTICPo.''"
  shows "match_alt delimiters (t @ rest) = None"
proof -
  have "\<not> prefix d (t @ rest)" if d: "d \<in> set delimiters" for d
  proof
    assume p: "prefix d (t @ rest)"
    from delimiter_head [OF d] obtain c cs where dc: "d = c # cs" "c \<in> set ''tSTICPo.''"
      by (cases d) auto
    from assms(1) obtain a as where t: "t = a # as" by (cases t) auto
    from p dc t have "c = a" by simp
    then show False using assms(2) dc(2) t by simp
  qed
  then show ?thesis unfolding match_alt_None_iff by blast
qed

lemma skip_plain:
  assumes "\<forall>c\<in>set x. c \<notin> set ''tSTICPo.''"
  shows "re_split_from seg (x @ rest) = re_split_from (seg @ x) rest"
proof (rule re_split_from_skip)
  fix t :: string assume t: "t \<noteq> []" "suffix t x"
  then have "hd t \<in> set x" using hd_in_set [of t] set_mono_suffix [of t x] by auto
  then show "match_alt delimiters (t @ rest) = None"
    using assms t(1) by (intro no_delimiter_head) auto
qed

lemma delim_free_inside:
  assumes "delim_free x" "suffix t x" "d \<in> set delimiters"
  shows "\<not> prefix d t"
  using assms by (auto simp: delim_free_iff)

lemma underscore_in_no_delimiter: "d \<in> set delimiters \<Longrightarrow> CHR ''_'' \<notin> set d"
  by (auto simp: delimiters_def)

lemma dot_in_delimiter: "d \<in> set delimiters \<Longrightarrow> CHR ''.'' \<in> set d \<Longrightarrow> d = ''.''"
  by (auto simp: delimiters_def)

lemma skip_free_underscore:
  assumes "delim_free x"
  shows "re_split_from seg (x @ CHR ''_'' # rest) = re_split_from (seg @ x @ ''_'') rest"
proof -
  have "re_split_from seg (x @ CHR ''_'' # rest) = re_split_from (seg @ x) (CHR ''_'' # rest)"
  proof (rule re_split_from_skip)
    fix t :: string assume t: "t \<noteq> []" "suffix t x"
    have "\<not> prefix d (t @ CHR ''_'' # rest)" if d: "d \<in> set delimiters" for d
      using prefix_inside [of d t "CHR ''_''" rest] underscore_in_no_delimiter [OF d]
        delim_free_inside [OF assms t(2) d] by auto
    then show "match_alt delimiters (t @ CHR ''_'' # rest) = None"
      unfolding match_alt_None_iff by simp
  qed
  also have "\<dots> = re_split_from ((seg @ x) @ ''_'') rest"
    using skip_plain [of "''_''" "seg @ x" rest] by simp
  finally show ?thesis by simp
qed

lemma skip_free_dot:
  assumes "delim_free x"
  shows "re_split_from seg (x @ CHR ''.'' # rest) = (seg @ x) # re_split_from [] rest"
proof -
  have "re_split_from seg (x @ CHR ''.'' # rest) = re_split_from (seg @ x) (CHR ''.'' # rest)"
  proof (rule re_split_from_skip)
    fix t :: string assume t: "t \<noteq> []" "suffix t x"
    have "\<not> prefix d (t @ CHR ''.'' # rest)" if d: "d \<in> set delimiters" for d
    proof (cases "CHR ''.'' \<in> set d")
      case True
      then have "d = ''.''" using d by (rule dot_in_delimiter [rotated])
      moreover have "\<not> prefix ''.'' t" using delim_free_inside [OF assms t(2) d] \<open>d = ''.''\<close> by simp
      ultimately show ?thesis using t(1) by (cases t) auto
    next
      case False
      then show ?thesis
        using delim_free_inside [OF assms t(2) d] prefix_inside [of d t "CHR ''.''" rest] by auto
    qed
    then show "match_alt delimiters (t @ CHR ''.'' # rest) = None"
      unfolding match_alt_None_iff by simp
  qed
  also have "\<dots> = (seg @ x) # re_split_from [] rest"
    using re_split_from_match [of "''.''" rest "seg @ x"] match_alt_delim(9) [of rest] by simp
  finally show ?thesis .
qed

lemma skip_free_end:
  assumes "delim_free x"
  shows "re_split_from seg x = [seg @ x]"
proof -
  have "re_split_from seg (x @ []) = re_split_from (seg @ x) []"
  proof (rule re_split_from_skip)
    fix t :: string assume t: "t \<noteq> []" "suffix t x"
    show "match_alt delimiters (t @ []) = None"
      unfolding match_alt_None_iff using delim_free_inside [OF assms t(2)] by simp
  qed
  then show ?thesis by (simp add: re_split_from.simps)
qed

lemma digit_not_head: "is_digit c \<Longrightarrow> c \<notin> set ''tSTICPo.''"
  by (auto simp: is_digit_def)

lemma skip_digits_sep:
  assumes "digit_string g" "c = CHR ''_'' \<or> c = CHR ''-''"
  shows "re_split_from seg (g @ c # rest) = re_split_from (seg @ g @ [c]) rest"
proof -
  have "\<forall>a\<in>set (g @ [c]). a \<notin> set ''tSTICPo.''"
    using assms digit_not_head by (auto simp: digit_string_def list_all_iff)
  from skip_plain [OF this, of seg rest] show ?thesis by simp
qed

lemma delim_step:
  "re_split_from seg (''timelapseID-'' @ r) = seg # re_split_from [] r"
  "re_split_from seg (''SPC-'' @ r) = seg # re_split_from [] r"
  "re_split_from seg (''TP-'' @ r) = seg # re_split_from [] r"
  "re_split_from seg (''ILL-'' @ r) = seg # re_split_from [] r"
  "re_split_from seg (''CAM-'' @ r) = seg # re_split_from [] r"
  "re_split_from seg (''CH-'' @ r) = seg # re_split_from [] r"
  "re_split_from seg (''PL-'' @ r) = seg # re_split_from [] r"
  "re_split_from seg (''outOf-'' @ r) = seg # re_split_from [] r"
  by (rule re_split_from_match, rule match_alt_delim, simp)+

lemma delim_free_Nil: "delim_free []"
  by (simp add: delim_free_def delimiters_def)

lemma re_split_tail:
  assumes "digit_string tot" "delim_free info" "delim_free ext"
  shows "re_split_from [] (tot @ (if info = [] then [] else ''_'' @ info) @ ''.'' @ ext)
     = [tot @ (if info = [] then [] else ''_'' @ info), ext]"
proof (cases "info = []")
  case True
  have "\<forall>a\<in>set tot. a \<notin> set ''tSTICPo.''"
    using assms(1) digit_not_head by (auto simp: digit_string_def list_all_iff)
  from skip_plain [OF this, of "[]" "''.'' @ ext"]
  have "re_split_from [] (tot @ ''.'' @ ext) = re_split_from tot (''.'' @ ext)" by simp
  also have "\<dots> = tot # re_split_from [] ext"
    using skip_free_dot [OF delim_free_Nil, of tot ext] by simp
  finally show ?thesis using True skip_free_end [OF assms(3), of "[]"] by simp
next
  case False
  have "re_split_from [] (tot @ CHR ''_'' # info @ CHR ''.'' # ext)
      = re_split_from (tot @ ''_'') (info @ CHR ''.'' # ext)"
    using skip_digits_sep [OF assms(1), of "CHR ''_''" "[]" "info @ CHR ''.'' # ext"] by simp
  also have "\<dots> = (tot @ ''_'' @ info) # re_split_from [] ext"
    using skip_free_dot [OF assms(2), of "tot @ ''_''" ext] by simp
  finally show ?thesis using False skip_free_end [OF assms(3), of "[]"] by simp
qed

lemma digit_string_delim_free: "digit_string g \<Longrightarrow> delim_free g"
proof -
  assume g: "digit_string g"
  have "\<not> prefix d t" if st: "suffix t g" and d: "d \<in> set delimiters" for t d
  proof (cases t)
    case Nil
    then show ?thesis using delimiter_head [OF d] by simp
  next
    case (Cons a as)
    then have "a \<in> set g" using st set_mono_suffix [of t g] by auto
    then have "a \<notin> set ''tSTICPo.''"
      using g digit_not_head by (auto simp: digit_string_def list_all_iff)
    moreover obtain c cs where "d = c # cs" "c \<in> set ''tSTICPo.''"
      using delimiter_head [OF d] by (cases d) auto
    ultimately show ?thesis using Cons by auto
  qed
  then show ?thesis unfolding delim_free_iff by blast
qed

lemma re_split_layout:
  assumes "delim_free (f_dataset n)" "delim_free (f_id n)" "digit_string (f_specimen n)"
    "digit_string (f_time_point n)" "digit_string (f_illumination n)" "digit_string (f_camera n)"
    "digit_string (f_channel n)" "digit_string (f_plane n)" "digit_string (f_total n)"
    "delim_free (f_info n)" "delim_free (f_ext n)"
  shows "re_split (layout n) = segments n"
  using assms
  by (simp add: re_split_def layout_def segments_def skip_digits_sep skip_free_underscore
      skip_free_dot skip_free_end delim_step [simplified] digit_string_delim_free)

section \<open>The canonical decoder on its ten parts\<close>

lemma assign_part_8:
  "assign_part 8 p8 self =
     map_option (\<lambda>n. self\<lparr>total_num_planes := n,
        additional_info := (if CHR ''_'' \<in> set (strip ''-_'' p8) then info_of p8 else additional_info self)\<rparr>)
       (py_int (total_token p8))"
  by (cases "py_int (total_token p8)")
    (auto simp: assign_part_def total_token_def info_of_def split_once_def Let_def)

lemma assign_parts_ten:
  "assign_parts 0 [p0, p1, p2, p3, p4, p5, p6, p7, p8, p9] self =
     Option.bind (py_int (strip ''-_'' p2)) (\<lambda>sp.
     Option.bind (py_int (strip ''-_'' p3)) (\<lambda>tp.
     Option.bind (py_int (strip ''-_'' p4)) (\<lambda>il.
     Option.bind (py_int (strip ''-_'' p5)) (\<lambda>ca.
     Option.bind (py_int (strip ''-_'' p6)) (\<lambda>ch.
     Option.bind (py_int (strip ''-_'' p7)) (\<lambda>pl.
     Option.bind (py_int (total_token p8)) (\<lambda>tot.
     Some (self\<lparr>dataset_name := strip ''-_'' p0, timelapse_id := strip ''-_'' p1,
       specimen := sp, time_point := tp, illumination := il, camera := ca, channel := ch,
       plane := pl, total_num_planes := tot,
       additional_info := (if CHR ''_'' \<in> set (strip ''-_'' p8) then info_of p8
          else additional_info self),
       extension := p9\<rparr>))))))))"
proof -
  have nums: "Suc 0 = 1" "Suc 1 = 2" "Suc 2 = 3" "Suc 3 = 4" "Suc 4 = 5" "Suc 5 = 6" "Suc 6 = 7"
    "Suc 7 = 8" "Suc 8 = 9" by simp_all
  have a0: "assign_part 0 p self' = Some (self'\<lparr>dataset_name := strip ''-_'' p\<rparr>)" for p self'
    by (simp add: assign_part_def)
  have a1: "assign_part 1 p self' = Some (self'\<lparr>timelapse_id := strip ''-_'' p\<rparr>)" for p self'
    by (simp add: assign_part_def)
  have a2: "assign_part 2 p self' = map_option (\<lambda>n. self'\<lparr>specimen := n\<rparr>) (py_int (strip ''-_'' p))" for p self'
    by (simp add: assign_part_def)
  have a3: "assign_part 3 p self' = map_option (\<lambda>n. self'\<lparr>time_point := n\<rparr>) (py_int (strip ''-_'' p))" for p self'
    by (simp add: assign_part_def)
  have a4: "assign_part 4 p self' = map_option (\<lambda>n. self'\<lparr>illumination := n\<rparr>) (py_int (strip ''-_'' p))" for p self'
    by (simp add: assign_part_def)
  have a5: "assign_part 5 p self' = map_option (\<lambda>n. self'\<lparr>camera := n\<rparr>) (py_int (strip ''-_'' p))" for p self'
    by (simp add: assign_part_def)
  have a6: "assign_part 6 p self' = map_option (\<lambda>n. self'\<lparr>channel := n\<rparr>) (py_int (strip ''-_'' p))" for p self'
    by (simp add: assign_part_def)
  have a7: "assign_part 7 p self' = map_option (\<lambda>n. self'\<lparr>plane := n\<rparr>) (py_int (strip ''-_'' p))" for p self'
    by (simp add: assign_part_def)
  have a9: "assign_part 9 p self' = Some (self'\<lparr>extension := p\<rparr>)" for p self'
    by (simp add: assign_part_def)
  show ?thesis
    unfolding assign_parts.simps nums a0 a1 a2 a3 a4 a5 a6 a7 assign_part_8 a9
    by (cases "py_int (strip ''-_'' p2)"; cases "py_int (strip ''-_'' p3)";
        cases "py_int (strip ''-_'' p4)"; cases "py_int (strip ''-_'' p5)";
        cases "py_int (strip ''-_'' p6)"; cases "py_int (strip ''-_'' p7)";
        cases "py_int (total_token p8)"; simp)
qed

lemma ImageFile_init_not_ten:
  "length (re_split (basename p)) \<noteq> 10 \<Longrightarrow> ImageFile_init p = Inl (NotImagePlaneFile
     (''Image file name is improperly formatted! Check documentation inside the script. ''
      @ ''Expected 10 parts after splitting by '' @ split_by))"
  by (simp add: ImageFile_init_def Let_def)

lemma ImageFile_init_ten:
  assumes "re_split (basename p) = [p0, p1, p2, p3, p4, p5, p6, p7, p8, p9]"
  shows "ImageFile_init p =
     (case assign_parts 0 [p0, p1, p2, p3, p4, p5, p6, p7, p8, p9]
             (class_defaults\<lparr>path_to_image_dir := dirname p\<rparr>) of
        None \<Rightarrow> Inl (NotImagePlaneFile ''This is not a valid filename for a single plane image file!'')
      | Some self' \<Rightarrow> Inr self')"
  using assms by (simp add: ImageFile_init_def Let_def del: assign_parts.simps split: option.splits)

lemma docstring_example_split:
  "re_split ''SPC-0001_TP-0001_ILL-0_CAM-0_CH-01_PL-0001-outOf-0150_blaBla.tif'' =
     [[], ''0001_'', ''0001_'', ''0_'', ''0_'', ''01_'', ''0001-'', ''0150_blaBla'', ''tif'']"
  by code_simp

lemma letters_example_split:
  "re_split ''x_timelapseID-y_SPC-ab_TP-0001_ILL-0_CAM-0_CH-01_PL-0001-outOf-0150.tif'' =
     [''x_'', ''y_'', ''ab_'', ''0001_'', ''0_'', ''0_'', ''01_'', ''0001-'', ''0150'', ''tif'']"
  by code_simp

lemma letters_no_int: "py_int (strip ''-_'' ''ab_'') = None"
  by code_simp

text \<open>
  Claim C3. A file path whose base name does not split into exactly 10 parts, or one of
  whose numeric parts \<open>int()\<close> refuses, makes \<open>__init__\<close> fail with \<open>NotImagePlaneFile\<close>; a
  file name that the ingest pattern does not match makes the ingest decoder fail with
  \<open>NotImagePlaneFile\<close>. The result is the error, so no record is produced.
\<close>

theorem rejection_is_typed:
  "(length (re_split (basename path1)) \<noteq> 10 \<longrightarrow>
      ImageFile_init path1 = Inl (NotImagePlaneFile
        (''Image file name is improperly formatted! Check documentation inside the script. ''
         @ ''Expected 10 parts after splitting by '' @ split_by)))
   \<and> (re_split (basename path2) = [p0, p1, p2, p3, p4, p5, p6, p7, p8, p9]
        \<and> (py_int (strip ''-_'' p2) = None \<or> py_int (strip ''-_'' p3) = None
           \<or> py_int (strip ''-_'' p4) = None \<or> py_int (strip ''-_'' p5) = None
           \<or> py_int (strip ''-_'' p6) = None \<or> py_int (strip ''-_'' p7) = None
           \<or> py_int (total_token p8) = None) \<longrightarrow>
      ImageFile_init path2 = Inl (NotImagePlaneFile
        ''This is not a valid filename for a single plane image file!''))
   \<and> ((\<nexists>g1 g2 g3 g4 g5 g6 rest. name = xOpenSPIM_name g1 g2 g3 g4 g5 g6 @ rest
          \<and> digit_string g1 \<and> digit_string g2 \<and> digit_string g3 \<and> digit_string g4
          \<and> digit_string g5 \<and> word_string g6) \<longrightarrow>
      get_ImageFile_from_xOpenSPIM_filename name d = Inl (NotImagePlaneFile
        ''xOpenSPIM file name is improperly formatted!''))"
proof (intro conjI impI)
  assume "length (re_split (basename path1)) \<noteq> 10"
  then show "ImageFile_init path1 = Inl (NotImagePlaneFile
        (''Image file name is improperly formatted! Check documentation inside the script. ''
         @ ''Expected 10 parts after splitting by '' @ split_by))"
    by (rule ImageFile_init_not_ten)
next
  assume a: "re_split (basename path2) = [p0, p1, p2, p3, p4, p5, p6, p7, p8, p9]
        \<and> (py_int (strip ''-_'' p2) = None \<or> py_int (strip ''-_'' p3) = None
           \<or> py_int (strip ''-_'' p4) = None \<or> py_int (strip ''-_'' p5) = None
           \<or> py_int (strip ''-_'' p6) = None \<or> py_int (strip ''-_'' p7) = None
           \<or> py_int (total_token p8) = None)"
  then have "assign_parts 0 [p0, p1, p2, p3, p4, p5, p6, p7, p8, p9]
             (class_defaults\<lparr>path_to_image_dir := dirname path2\<rparr>) = None"
    unfolding assign_parts_ten by (auto simp: Option.bind_eq_None_conv)
  then show "ImageFile_init path2 = Inl (NotImagePlaneFile
        ''This is not a valid filename for a single plane image file!'')"
    using a ImageFile_init_ten [of path2 p0 p1 p2 p3 p4 p5 p6 p7 p8 p9] by simp
next
  assume a: "\<nexists>g1 g2 g3 g4 g5 g6 rest. name = xOpenSPIM_name g1 g2 g3 g4 g5 g6 @ rest
          \<and> digit_string g1 \<and> digit_string g2 \<and> digit_string g3 \<and> digit_string g4
          \<and> digit_string g5 \<and> word_string g6"
  have "xOpenSPIM_match name = None"
  proof (cases "xOpenSPIM_match name")
    case None
    then show ?thesis .
  next
    case (Some gs)
    obtain g1 g2 g3 g4 g5 g6 where "gs = (g1, g2, g3, g4, g5, g6)" by (cases gs) auto
    from xOpenSPIM_match_Some [OF Some [unfolded this]] a show ?thesis by blast
  qed
  then show "get_ImageFile_from_xOpenSPIM_filename name d = Inl (NotImagePlaneFile
        ''xOpenSPIM file name is improperly formatted!'')"
    by (rule get_ImageFile_no_match)
qed

theorem rejection_is_typed_witness:
  "length (re_split (basename ''SPC-0001_TP-0001_ILL-0_CAM-0_CH-01_PL-0001-outOf-0150_blaBla.tif'')) \<noteq> 10
   \<and> ImageFile_init ''SPC-0001_TP-0001_ILL-0_CAM-0_CH-01_PL-0001-outOf-0150_blaBla.tif'' =
       Inl (NotImagePlaneFile
        (''Image file name is improperly formatted! Check documentation inside the script. ''
         @ ''Expected 10 parts after splitting by '' @ split_by))
   \<and> re_split (basename ''x_timelapseID-y_SPC-ab_TP-0001_ILL-0_CAM-0_CH-01_PL-0001-outOf-0150.tif'') =
       [''x_'', ''y_'', ''ab_'', ''0001_'', ''0_'', ''0_'', ''01_'', ''0001-'', ''0150'', ''tif'']
   \<and> py_int (strip ''-_'' ''ab_'') = None
   \<and> ImageFile_init ''x_timelapseID-y_SPC-ab_TP-0001_ILL-0_CAM-0_CH-01_PL-0001-outOf-0150.tif'' =
       Inl (NotImagePlaneFile ''This is not a valid filename for a single plane image file!'')
   \<and> (\<nexists>g1 g2 g3 g4 g5 g6 rest. ''randomfile.tif'' = xOpenSPIM_name g1 g2 g3 g4 g5 g6 @ rest
          \<and> digit_string g1 \<and> digit_string g2 \<and> digit_string g3 \<and> digit_string g4
          \<and> digit_string g5 \<and> word_string g6)
   \<and> get_ImageFile_from_xOpenSPIM_filename ''randomfile.tif'' [] =
       Inl (NotImagePlaneFile ''xOpenSPIM file name is improperly formatted!'')"
proof -
  have b1: "basename ''SPC-0001_TP-0001_ILL-0_CAM-0_CH-01_PL-0001-outOf-0150_blaBla.tif''
      = ''SPC-0001_TP-0001_ILL-0_CAM-0_CH-01_PL-0001-outOf-0150_blaBla.tif''"
    by (rule basename_no_slash) simp
  have b2: "basename ''x_timelapseID-y_SPC-ab_TP-0001_ILL-0_CAM-0_CH-01_PL-0001-outOf-0150.tif''
      = ''x_timelapseID-y_SPC-ab_TP-0001_ILL-0_CAM-0_CH-01_PL-0001-outOf-0150.tif''"
    by (rule basename_no_slash) simp
  have h1: "length (re_split (basename ''SPC-0001_TP-0001_ILL-0_CAM-0_CH-01_PL-0001-outOf-0150_blaBla.tif'')) \<noteq> 10"
    unfolding b1 docstring_example_split by simp
  have h2: "re_split (basename ''x_timelapseID-y_SPC-ab_TP-0001_ILL-0_CAM-0_CH-01_PL-0001-outOf-0150.tif'') =
       [''x_'', ''y_'', ''ab_'', ''0001_'', ''0_'', ''0_'', ''01_'', ''0001-'', ''0150'', ''tif'']"
    unfolding b2 by (rule letters_example_split)
  have h3: "\<nexists>g1 g2 g3 g4 g5 g6 rest. ''randomfile.tif'' = xOpenSPIM_name g1 g2 g3 g4 g5 g6 @ rest
          \<and> digit_string g1 \<and> digit_string g2 \<and> digit_string g3 \<and> digit_string g4
          \<and> digit_string g5 \<and> word_string g6"
    by (simp add: xOpenSPIM_name_def)
  show ?thesis
    using h1 h2 h3 letters_no_int
      rejection_is_typed [of "''SPC-0001_TP-0001_ILL-0_CAM-0_CH-01_PL-0001-outOf-0150_blaBla.tif''"
        "''x_timelapseID-y_SPC-ab_TP-0001_ILL-0_CAM-0_CH-01_PL-0001-outOf-0150.tif''"
        "''x_''" "''y_''" "''ab_''" "''0001_''" "''0_''" "''0_''" "''01_''" "''0001-''" "''0150''" "''tif''"
        "''randomfile.tif''" "[]"]
    by simp
qed

section \<open>Lemmas on stripping, on the formats of numbers and on decoding\<close>

lemma in_seps: "c \<in> set ''-_'' \<longleftrightarrow> sep_char c"
  by (auto simp: sep_char_def)








declare nat_digits.simps [simp del]










lemma digit_no_slash: "digit_string g \<Longrightarrow> CHR ''/'' \<notin> set g"
  by (auto simp: digit_string_def list_all_iff is_digit_def)


lemma layout_no_slash: "valid_fields n \<Longrightarrow> CHR ''/'' \<notin> set (layout n)"
  by (auto simp: valid_fields_def free_text_def layout_def dest: digit_no_slash)






section \<open>The round trip of the canonical codec\<close>


lemma example_fields_valid: "valid_fields example_fields"
  by code_simp

lemma example_fields_layout:
  "layout example_fields =
     ''fish_timelapseID-20240808-111112_SPC-1_TP-0002_ILL-0_CAM-0_CH-01_PL-0003-outOf-0150_blaBla.TIF''"
  by code_simp


lemma example_fields_name:
  "get_name \<lparr>dataset_name = ''fish'', timelapse_id = ''20240808-111112'',
     time_point = 2, specimen = 1, illumination = 0, camera = 0, channel = 1, plane = 3,
     total_num_planes = 150, additional_info = ''blaBla'', extension = ''TIF'',
     path_to_image_dir = []\<rparr> =
     ''fish_timelapseID-20240808-111112_SPC-0001_TP-0002_ILL-0_CAM-0_CH-01_PL-0003-outOf-0150_blaBla.TIF''"
  by code_simp






















section \<open>The extension\<close>









section \<open>Dots in a canonical name\<close>

lemma strip_prefix_before_dot:
  "CHR ''.'' \<notin> set d \<Longrightarrow>
     strip_prefix d (t @ CHR ''.'' # y) = map_option (\<lambda>r. r @ CHR ''.'' # y) (strip_prefix d t)"
  by (induction d t rule: strip_prefix.induct) auto

lemma strip_prefix_dot_itself:
  "t \<noteq> [] \<Longrightarrow>
     strip_prefix ''.'' (t @ CHR ''.'' # y) = map_option (\<lambda>r. r @ CHR ''.'' # y) (strip_prefix ''.'' t)"
  by (cases t) simp_all

lemma match_alt_before_dot_gen:
  assumes "\<forall>d\<in>set ds. CHR ''.'' \<notin> set d \<or> d = ''.''" "t \<noteq> []"
  shows "match_alt ds (t @ CHR ''.'' # y) = map_option (\<lambda>r. r @ CHR ''.'' # y) (match_alt ds t)"
  using assms(1)
proof (induction ds)
  case Nil
  then show ?case by simp
next
  case (Cons d ds)
  have "strip_prefix d (t @ CHR ''.'' # y) = map_option (\<lambda>r. r @ CHR ''.'' # y) (strip_prefix d t)"
    using Cons.prems strip_prefix_before_dot [of d t y] strip_prefix_dot_itself [OF assms(2), of y]
    by auto
  then show ?case using Cons by (cases "strip_prefix d t") simp_all
qed

lemma match_alt_before_dot:
  "match_alt delimiters (c # cs @ CHR ''.'' # y)
     = map_option (\<lambda>r. r @ CHR ''.'' # y) (match_alt delimiters (c # cs))"
proof -
  have "\<forall>d\<in>set delimiters. CHR ''.'' \<notin> set d \<or> d = ''.''"
    using dot_in_delimiter by blast
  from match_alt_before_dot_gen [OF this, of "c # cs" y] show ?thesis by simp
qed

lemma dot_splits:
  "re_split_from seg (x @ CHR ''.'' # y) = re_split_from seg x @ re_split_from [] y"
proof (induction seg x rule: re_split_from.induct)
  case (1 seg)
  show ?case using re_split_from_match [of "''.''" y seg] match_alt_delim(9) [of y]
    by (simp add: re_split_from.simps(1))
next
  case (2 seg c cs)
  show ?case
  proof (cases "match_alt delimiters (c # cs)")
    case None
    then have "match_alt delimiters ((c # cs) @ CHR ''.'' # y) = None"
      by (simp add: match_alt_before_dot)
    then show ?thesis using None "2.IH"(1) [OF None]
      by (simp add: re_split_from.simps(2))
  next
    case (Some rest)
    then have "match_alt delimiters ((c # cs) @ CHR ''.'' # y) = Some (rest @ CHR ''.'' # y)"
      by (simp add: match_alt_before_dot)
    then show ?thesis using Some "2.IH"(2) [OF Some]
      by (simp add: re_split_from.simps(2))
  qed
qed

lemma re_split_dot: "re_split (x @ ''.'' @ y) = re_split x @ re_split y"
  using dot_splits [of "[]" x y] by (simp add: re_split_def)

lemma free_text_split: "free_text a \<Longrightarrow> re_split a = [a]"
  using skip_free_end [of a "[]"] by (simp add: free_text_def re_split_def)

lemma valid_fields_split: "valid_fields n \<Longrightarrow> re_split (layout n) = segments n"
  by (rule re_split_layout) (simp_all add: valid_fields_def free_text_def)

lemma layout_dataset_dot:
  "f_dataset n \<noteq> [] \<Longrightarrow>
     layout (n\<lparr>f_dataset := a @ ''.'' @ f_dataset n\<rparr>) = a @ ''.'' @ layout n"
  by (simp add: layout_def)

lemma layout_info_dot:
  "f_info n \<noteq> [] \<Longrightarrow>
     layout (n\<lparr>f_info := f_info n @ ''.'' @ b\<rparr>) = layout (n\<lparr>f_ext := b\<rparr>) @ ''.'' @ f_ext n"
  by (simp add: layout_def)

lemma eleven_parts_rejected:
  assumes "CHR ''/'' \<notin> set name" "length (re_split name) = 11"
  shows "ImageFile_init name = Inl (NotImagePlaneFile
     (''Image file name is improperly formatted! Check documentation inside the script. ''
      @ ''Expected 10 parts after splitting by '' @ split_by))"
  using assms ImageFile_init_not_ten [of name] by (simp add: basename_no_slash)

lemma dotted_dataset_split:
  "re_split ''my.fish_timelapseID-20240808-111112_SPC-1_TP-0002_ILL-0_CAM-0_CH-01_PL-0003-outOf-0150_blaBla.TIF''
    = [''my'', ''fish_'', ''20240808-111112_'', ''1_'', ''0002_'', ''0_'', ''0_'', ''01_'', ''0003-'',
       ''0150_blaBla'', ''TIF'']"
  by code_simp

lemma example_free_texts: "free_text ''my''" "free_text ''v2''" "f_dataset example_fields \<noteq> []"
  "f_info example_fields \<noteq> []"
  by code_simp+

lemma example_dotted_layouts:
  "layout (example_fields\<lparr>f_dataset := ''my'' @ ''.'' @ f_dataset example_fields\<rparr>) =
    ''my.fish_timelapseID-20240808-111112_SPC-1_TP-0002_ILL-0_CAM-0_CH-01_PL-0003-outOf-0150_blaBla.TIF''"
  "layout (example_fields\<lparr>f_info := f_info example_fields @ ''.'' @ ''v2''\<rparr>) =
    ''fish_timelapseID-20240808-111112_SPC-1_TP-0002_ILL-0_CAM-0_CH-01_PL-0003-outOf-0150_blaBla.v2.TIF''"
  by code_simp+

text \<open>
  Claim C7 says that the dot of the pattern stands for the last dot only, so that a name
  with one more dot in a free-form field still falls into ten parts. The pattern splits at
  every dot: a valid name with \<open>my.fish\<close> as its data set falls into eleven parts and is
  rejected.
\<close>

theorem extra_dot_counterexample:
  "length (re_split
      ''my.fish_timelapseID-20240808-111112_SPC-1_TP-0002_ILL-0_CAM-0_CH-01_PL-0003-outOf-0150_blaBla.TIF'')
     \<noteq> 10
   \<and> ImageFile_init
      ''my.fish_timelapseID-20240808-111112_SPC-1_TP-0002_ILL-0_CAM-0_CH-01_PL-0003-outOf-0150_blaBla.TIF''
     = Inl (NotImagePlaneFile
        (''Image file name is improperly formatted! Check documentation inside the script. ''
         @ ''Expected 10 parts after splitting by '' @ split_by))"
proof -
  have b: "basename ''my.fish_timelapseID-20240808-111112_SPC-1_TP-0002_ILL-0_CAM-0_CH-01_PL-0003-outOf-0150_blaBla.TIF''
     = ''my.fish_timelapseID-20240808-111112_SPC-1_TP-0002_ILL-0_CAM-0_CH-01_PL-0003-outOf-0150_blaBla.TIF''"
    by (rule basename_no_slash) simp
  have l: "length (re_split
      ''my.fish_timelapseID-20240808-111112_SPC-1_TP-0002_ILL-0_CAM-0_CH-01_PL-0003-outOf-0150_blaBla.TIF'')
     \<noteq> 10"
    unfolding dotted_dataset_split by simp
  show ?thesis using l ImageFile_init_not_ten [of
      "''my.fish_timelapseID-20240808-111112_SPC-1_TP-0002_ILL-0_CAM-0_CH-01_PL-0003-outOf-0150_blaBla.TIF''"]
    unfolding b by simp
qed

text \<open>
  Claim C7 as amended. The split takes every dot as a delimiter: the parts of \<open>x.y\<close> are
  the parts of \<open>x\<close> followed by the parts of \<open>y\<close>. A valid canonical name, whose only dot
  stands before the extension, falls into exactly ten parts, the last being the extension
  as written; the same name with one more dot in \<open>dataset_name\<close> or in \<open>additional_info\<close>
  falls into eleven parts and is rejected with \<open>NotImagePlaneFile\<close>.
\<close>

theorem every_dot_splits:
  "re_split (x @ ''.'' @ y) = re_split x @ re_split y
   \<and> (valid_fields n \<longrightarrow>
        length (re_split (layout n)) = 10 \<and> last (re_split (layout n)) = f_ext n)
   \<and> (valid_fields n \<and> f_dataset n \<noteq> [] \<and> free_text a \<longrightarrow>
        length (re_split (layout (n\<lparr>f_dataset := a @ ''.'' @ f_dataset n\<rparr>))) = 11
        \<and> ImageFile_init (layout (n\<lparr>f_dataset := a @ ''.'' @ f_dataset n\<rparr>)) =
            Inl (NotImagePlaneFile
              (''Image file name is improperly formatted! Check documentation inside the script. ''
               @ ''Expected 10 parts after splitting by '' @ split_by)))
   \<and> (valid_fields n \<and> f_info n \<noteq> [] \<and> free_text b \<longrightarrow>
        length (re_split (layout (n\<lparr>f_info := f_info n @ ''.'' @ b\<rparr>))) = 11
        \<and> ImageFile_init (layout (n\<lparr>f_info := f_info n @ ''.'' @ b\<rparr>)) =
            Inl (NotImagePlaneFile
              (''Image file name is improperly formatted! Check documentation inside the script. ''
               @ ''Expected 10 parts after splitting by '' @ split_by)))"
proof (intro conjI impI)
  show "re_split (x @ ''.'' @ y) = re_split x @ re_split y" by (rule re_split_dot)
next
  assume v: "valid_fields n"
  show "length (re_split (layout n)) = 10" "last (re_split (layout n)) = f_ext n"
    unfolding valid_fields_split [OF v] by (simp_all add: segments_def)
next
  assume a: "valid_fields n \<and> f_dataset n \<noteq> [] \<and> free_text a"
  then have l: "layout (n\<lparr>f_dataset := a @ ''.'' @ f_dataset n\<rparr>) = a @ ''.'' @ layout n"
    by (intro layout_dataset_dot) simp
  show len: "length (re_split (layout (n\<lparr>f_dataset := a @ ''.'' @ f_dataset n\<rparr>))) = 11"
    unfolding l re_split_dot using a by (simp add: free_text_split valid_fields_split segments_def)
  have "CHR ''/'' \<notin> set (layout (n\<lparr>f_dataset := a @ ''.'' @ f_dataset n\<rparr>))"
    unfolding l using a layout_no_slash [of n] by (simp add: free_text_def)
  then show "ImageFile_init (layout (n\<lparr>f_dataset := a @ ''.'' @ f_dataset n\<rparr>)) =
            Inl (NotImagePlaneFile
              (''Image file name is improperly formatted! Check documentation inside the script. ''
               @ ''Expected 10 parts after splitting by '' @ split_by))"
    using len by (rule eleven_parts_rejected)
next
  assume a: "valid_fields n \<and> f_info n \<noteq> [] \<and> free_text b"
  then have l: "layout (n\<lparr>f_info := f_info n @ ''.'' @ b\<rparr>) = layout (n\<lparr>f_ext := b\<rparr>) @ ''.'' @ f_ext n"
    by (intro layout_info_dot) simp
  from a have v: "valid_fields (n\<lparr>f_ext := b\<rparr>)" and e: "free_text (f_ext n)"
    by (auto simp: valid_fields_def)
  show len: "length (re_split (layout (n\<lparr>f_info := f_info n @ ''.'' @ b\<rparr>))) = 11"
    unfolding l re_split_dot using v e by (simp add: free_text_split valid_fields_split segments_def)
  have "CHR ''/'' \<notin> set (layout (n\<lparr>f_info := f_info n @ ''.'' @ b\<rparr>))"
    unfolding l using e layout_no_slash [OF v] by (simp add: free_text_def)
  then show "ImageFile_init (layout (n\<lparr>f_info := f_info n @ ''.'' @ b\<rparr>)) =
            Inl (NotImagePlaneFile
              (''Image file name is improperly formatted! Check documentation inside the script. ''
               @ ''Expected 10 parts after splitting by '' @ split_by))"
    using len by (rule eleven_parts_rejected)
qed

theorem every_dot_splits_witness:
  "valid_fields example_fields \<and> f_dataset example_fields \<noteq> [] \<and> free_text ''my''
   \<and> f_info example_fields \<noteq> [] \<and> free_text ''v2''
   \<and> length (re_split
        ''fish_timelapseID-20240808-111112_SPC-1_TP-0002_ILL-0_CAM-0_CH-01_PL-0003-outOf-0150_blaBla.TIF'') = 10
   \<and> last (re_split
        ''fish_timelapseID-20240808-111112_SPC-1_TP-0002_ILL-0_CAM-0_CH-01_PL-0003-outOf-0150_blaBla.TIF'') = ''TIF''
   \<and> length (re_split
        ''my.fish_timelapseID-20240808-111112_SPC-1_TP-0002_ILL-0_CAM-0_CH-01_PL-0003-outOf-0150_blaBla.TIF'') = 11
   \<and> ImageFile_init
        ''my.fish_timelapseID-20240808-111112_SPC-1_TP-0002_ILL-0_CAM-0_CH-01_PL-0003-outOf-0150_blaBla.TIF''
       = Inl (NotImagePlaneFile
        (''Image file name is improperly formatted! Check documentation inside the script. ''
         @ ''Expected 10 parts after splitting by '' @ split_by))
   \<and> length (re_split
        ''fish_timelapseID-20240808-111112_SPC-1_TP-0002_ILL-0_CAM-0_CH-01_PL-0003-outOf-0150_blaBla.v2.TIF'') = 11
   \<and> ImageFile_init
        ''fish_timelapseID-20240808-111112_SPC-1_TP-0002_ILL-0_CAM-0_CH-01_PL-0003-outOf-0150_blaBla.v2.TIF''
       = Inl (NotImagePlaneFile
        (''Image file name is improperly formatted! Check documentation inside the script. ''
         @ ''Expected 10 parts after splitting by '' @ split_by))"
proof -
  have e: "f_ext example_fields = ''TIF''" by (simp add: example_fields_def)
  note w = every_dot_splits [of "''a''" "''b''" example_fields "''my''" "''v2''",
      unfolded example_dotted_layouts example_fields_layout e]
  show ?thesis
    using w example_fields_valid example_free_texts by (simp del: append.simps)
qed

end
